theory Spec2Isabelle
  imports Complex_Main "HOL-Library.AList" "HOL-Library.List_Lexorder" "HOL-Library.Multiset"
begin

section \<open>Python values\<close>

text \<open>
  A Python \<open>str\<close> is a sequence of Unicode code points. Isabelle's \<open>char\<close> has eight
  bits only, so a string is a list of code points; \<open>ascii\<close> embeds an ASCII literal.
  Floats are idealised as reals (rounding is not modelled).
\<close>

type_synonym ustring = "nat list"

definition ascii :: "string \<Rightarrow> ustring" where
  "ascii s = map of_char s"

text \<open>What \<open>json.loads\<close> can return, and what \<open>requests\<close>' \<open>r.json()\<close> delivers.\<close>

datatype json =
    JNull
  | JBool bool
  | JInt int
  | JFloat real
  | JStr ustring
  | JArr "json list"
  | JObj "(ustring \<times> json) list"

type_synonym pydict = "(ustring \<times> json) list"

datatype pyerr =
    AttributeError
  | TypeError
  | ValueError
  | RequestError
  | BindError
  | IntegrityError
  | DatabaseError
  | KeyError
  | OverflowError
  | NoSnapshotsFound
  | NoSnapshotsForSnapshotMode
  | NotEnoughHistory

definition bind_err :: "'e + 'a \<Rightarrow> ('a \<Rightarrow> 'e + 'b) \<Rightarrow> 'e + 'b" where
  "bind_err m f = (case m of Inl e \<Rightarrow> Inl e | Inr x \<Rightarrow> f x)"

text \<open>\<open>d.get(k)\<close> on a dict: the value, or \<open>None\<close> for a missing key.\<close>

definition dict_get :: "pydict \<Rightarrow> ustring \<Rightarrow> json" where
  "dict_get d k = (case map_of d k of None \<Rightarrow> JNull | Some v \<Rightarrow> v)"

text \<open>\<open>x.get(k)\<close> on any decoded value: only a dict has the method.\<close>

fun py_get :: "json \<Rightarrow> ustring \<Rightarrow> pyerr + json" where
  "py_get (JObj d) k = Inr (dict_get d k)"
| "py_get _ k = Inl AttributeError"

text \<open>Truthiness, as the operator \<open>or\<close> tests it.\<close>

fun truthy :: "json \<Rightarrow> bool" where
  "truthy JNull = False"
| "truthy (JBool b) = b"
| "truthy (JInt i) = (i \<noteq> 0)"
| "truthy (JFloat r) = (r \<noteq> 0)"
| "truthy (JStr s) = (s \<noteq> [])"
| "truthy (JArr xs) = (xs \<noteq> [])"
| "truthy (JObj d) = (d \<noteq> [])"

definition py_or :: "json \<Rightarrow> json \<Rightarrow> json" where
  "py_or a b = (if truthy a then a else b)"

text \<open>
  \<open>isinstance(x, (int, float))\<close>; \<open>bool\<close> is a subclass of \<open>int\<close>.
\<close>

fun is_number :: "json \<Rightarrow> bool" where
  "is_number (JInt i) = True"
| "is_number (JFloat r) = True"
| "is_number (JBool b) = True"
| "is_number _ = False"

text \<open>
  \<open>float(i)\<close> of an int rounds to the nearest double and raises OverflowError where that
  is beyond the greatest double, \<open>2^1024 - 2^971\<close>: from \<open>2^1024 - 2^970\<close> on.
\<close>

definition float_limit :: int where
  "float_limit = 2 ^ 1024 - 2 ^ 970"

definition float_of_int :: "int \<Rightarrow> pyerr + real" where
  "float_of_int i = (if float_limit \<le> \<bar>i\<bar> then Inl OverflowError else Inr (of_int i))"

text \<open>
  The builtin \<open>float(x)\<close>. How a string reads as a decimal is the builtin's business and
  is taken as the parameter \<open>str_float\<close> (\<open>None\<close>: the string is rejected with ValueError).
\<close>

fun py_float :: "(ustring \<Rightarrow> real option) \<Rightarrow> json \<Rightarrow> pyerr + real" where
  "py_float str_float (JInt i) = float_of_int i"
| "py_float str_float (JFloat r) = Inr r"
| "py_float str_float (JBool b) = Inr (of_bool b)"
| "py_float str_float (JStr s) = (case str_float s of None \<Rightarrow> Inl ValueError | Some r \<Rightarrow> Inr r)"
| "py_float str_float _ = Inl TypeError"

text \<open>\<open>float(x)\<close> of a number, where no string is read.\<close>

definition float_of_number :: "json \<Rightarrow> pyerr + real" where
  "float_of_number x = py_float (\<lambda>s. None) x"

section \<open>scripts/_shared.py: the disk cache\<close>

record PrintingKey =
  set_code :: ustring
  collector_number :: ustring

text \<open>\<open>s.replace(old, new)\<close> for a one-character \<open>old\<close>.\<close>

definition replace_char :: "nat \<Rightarrow> ustring \<Rightarrow> ustring \<Rightarrow> ustring" where
  "replace_char old new s = concat (map (\<lambda>c. if c = old then new else [c]) s)"

definition cache_filename :: "PrintingKey \<Rightarrow> ustring" where
  "cache_filename key =
     (let safe_cn = replace_char 32 []
                      (replace_char 92 (ascii ''_'')
                        (replace_char 47 (ascii ''_'') (collector_number key)))
      in set_code key @ ascii ''__'' @ safe_cn @ ascii ''.json'')"

text \<open>
  A file of the cache directory is modelled by what \<open>json.loads(path.read_text())\<close> makes
  of it: an exception (the file cannot be read or is not JSON), or the decoded value.
  \<open>write_text(json.dumps(card))\<close> stores a file that decodes to \<open>card\<close> again.

  The world of the cache: its files by name, the catalog service (the response to a URL)
  with the log of the requests sent to it, and the clock, the n-th call of \<open>time.time()\<close>
  reading \<open>clock n\<close>.
\<close>

datatype stored = Undecodable | Decoded json

record world =
  files :: "ustring \<rightharpoonup> stored"
  remote :: "ustring \<Rightarrow> pyerr + pydict"
  requests :: "ustring list"
  clock :: "nat \<Rightarrow> real"
  ticks :: nat

definition time_time :: "world \<Rightarrow> real \<times> world" where
  "time_time w = (clock w (ticks w), w\<lparr>ticks := Suc (ticks w)\<rparr>)"

definition SCRYFALL_API :: ustring where
  "SCRYFALL_API = ascii ''https://api.scryfall.com''"

definition CACHE_TTL_HOURS :: int where
  "CACHE_TTL_HOURS = 12"

definition card_url :: "ustring \<Rightarrow> ustring \<Rightarrow> ustring" where
  "card_url sc cn = SCRYFALL_API @ ascii ''/cards/'' @ sc @ ascii ''/'' @ cn"

definition fetch_scryfall_card :: "world \<Rightarrow> ustring \<Rightarrow> ustring \<Rightarrow> (pyerr + pydict) \<times> world" where
  "fetch_scryfall_card w sc cn =
     (let url = card_url sc cn
      in (remote w url, w\<lparr>requests := requests w @ [url]\<rparr>))"

definition fetched_key :: ustring where
  "fetched_key = ascii ''_fetched_at_epoch''"

definition cache_get :: "world \<Rightarrow> PrintingKey \<Rightarrow> int \<Rightarrow> (pyerr + json option) \<times> world" where
  "cache_get w key ttl_hours =
     (case files w (cache_filename key) of
        None \<Rightarrow> (Inr None, w)
      | Some Undecodable \<Rightarrow> (Inr None, w)
      | Some (Decoded data) \<Rightarrow>
          (case py_get data fetched_key of
             Inl e \<Rightarrow> (Inl e, w)
           | Inr fetched_at \<Rightarrow>
               if \<not> is_number fetched_at then (Inr None, w)
               else
                 (let (now, w') = time_time w
                  in case float_of_number fetched_at of
                       Inl e \<Rightarrow> (Inl e, w')
                     | Inr t \<Rightarrow>
                         (let age_seconds = now - t
                          in if age_seconds > of_int (ttl_hours * 3600)
                             then (Inr None, w') else (Inr (Some data), w')))))"

definition cache_set :: "world \<Rightarrow> PrintingKey \<Rightarrow> pydict \<Rightarrow> world" where
  "cache_set w key crd =
     (let (now, w') = time_time w;
          crd' = AList.update fetched_key (JFloat now) crd
      in w'\<lparr>files := (files w')(cache_filename key \<mapsto> Decoded (JObj crd'))\<rparr>)"

definition fetch_scryfall_card_cached ::
  "world \<Rightarrow> PrintingKey \<Rightarrow> int \<Rightarrow> (pyerr + json \<times> ustring) \<times> world" where
  "fetch_scryfall_card_cached w key ttl_hours =
     (case cache_get w key ttl_hours of
        (Inl e, w1) \<Rightarrow> (Inl e, w1)
      | (Inr (Some cached), w1) \<Rightarrow> (Inr (cached, ascii ''cache_hit''), w1)
      | (Inr None, w1) \<Rightarrow>
          (case fetch_scryfall_card w1 (set_code key) (collector_number key) of
             (Inl e, w2) \<Rightarrow> (Inl e, w2)
           | (Inr crd, w2) \<Rightarrow>
               (Inr (JObj crd, ascii ''cache_miss_fetched''), cache_set w2 key crd)))"

section \<open>scripts/_shared.py: the unit price of a finish\<close>

definition to_float :: "(ustring \<Rightarrow> real option) \<Rightarrow> json \<Rightarrow> pyerr + real option" where
  "to_float str_float x =
     (if x = JNull \<or> x = JStr [] \<or> x = JStr (ascii ''null'') then Inr None
      else bind_err (py_float str_float x) (\<lambda>r. Inr (Some r)))"

definition choose_unit_price_usd ::
  "(ustring \<Rightarrow> real option) \<Rightarrow> json \<Rightarrow> ustring \<Rightarrow> pyerr + real option \<times> ustring" where
  "choose_unit_price_usd str_float crd finish =
     bind_err (py_get crd (ascii ''prices'')) (\<lambda>p.
       let prices = py_or p (JObj []) in
       bind_err (py_get prices (ascii ''usd'')) (\<lambda>u.
       bind_err (to_float str_float u) (\<lambda>usd.
       bind_err (py_get prices (ascii ''usd_foil'')) (\<lambda>f.
       bind_err (to_float str_float f) (\<lambda>usd_foil.
         if finish = ascii ''foil'' then
           (case usd_foil of
              Some v \<Rightarrow> Inr (Some v, ascii ''ok'')
            | None \<Rightarrow>
                (case usd of
                   Some v \<Rightarrow> Inr (Some v, ascii ''fallback_used:usd'')
                 | None \<Rightarrow> Inr (None, ascii ''missing_price_usd'')))
         else
           (case usd of
              Some v \<Rightarrow> Inr (Some v, ascii ''ok'')
            | None \<Rightarrow>
                (case usd_foil of
                   Some v \<Rightarrow> Inr (Some v, ascii ''fallback_used:usd_foil'')
                 | None \<Rightarrow> Inr (None, ascii ''missing_price_usd''))))))))"

section \<open>scripts/snapshot_prices.py: the snapshot table\<close>

text \<open>
  The table \<open>price_snapshots\<close>. A TEXT column holds text or NULL: SQLite's column affinity
  turns a bound number into its text, and a REAL column turns a bound text that reads as a
  number into that number. Both conversions are SQLite's own and are parameters. The order
  of the rows of a SELECT without ORDER BY is the order of insertion here.
\<close>

datatype sqlval = SqlNull | SqlInt int | SqlReal real | SqlText ustring

record sqlite_affinity =
  num_text :: "json \<Rightarrow> ustring"
  text_real :: "ustring \<Rightarrow> real option"

record snapshot_row =
  snapshot_date :: ustring
  scryfall_id :: ustring
  s_set_code :: ustring
  s_collector_number :: ustring
  s_finish :: ustring
  name :: "ustring option"
  rarity :: "ustring option"
  type_line :: "ustring option"
  usd :: "real option"
  fetched_at_epoch :: sqlval

text \<open>A connection: the rows of the table, or \<open>None\<close> when the database has no such table.\<close>

type_synonym conn = "snapshot_row list option"

definition ensure_schema :: "conn \<Rightarrow> conn" where
  "ensure_schema c = (case c of None \<Rightarrow> Some [] | Some t \<Rightarrow> Some t)"

text \<open>Binding a Python value to a column; \<open>sqlite3\<close> binds None, int, float and str only.\<close>

fun bind_text :: "sqlite_affinity \<Rightarrow> json \<Rightarrow> pyerr + ustring option" where
  "bind_text aff JNull = Inr None"
| "bind_text aff (JStr s) = Inr (Some s)"
| "bind_text aff (JArr xs) = Inl BindError"
| "bind_text aff (JObj d) = Inl BindError"
| "bind_text aff j = Inr (Some (num_text aff j))"

fun bind_real :: "sqlite_affinity \<Rightarrow> json \<Rightarrow> pyerr + sqlval" where
  "bind_real aff JNull = Inr SqlNull"
| "bind_real aff (JBool b) = Inr (SqlReal (of_bool b))"
| "bind_real aff (JInt i) = Inr (SqlReal (of_int i))"
| "bind_real aff (JFloat r) = Inr (SqlReal r)"
| "bind_real aff (JStr s) = Inr (case text_real aff s of None \<Rightarrow> SqlText s | Some r \<Rightarrow> SqlReal r)"
| "bind_real aff _ = Inl BindError"

definition primary_key :: "snapshot_row \<Rightarrow> ustring \<times> ustring \<times> ustring" where
  "primary_key r = (snapshot_date r, scryfall_id r, s_finish r)"

text \<open>INSERT OR REPLACE: the rows in conflict on the primary key go, the new row comes.\<close>

definition insert_or_replace :: "snapshot_row \<Rightarrow> snapshot_row list \<Rightarrow> snapshot_row list" where
  "insert_or_replace row t = filter (\<lambda>r. primary_key r \<noteq> primary_key row) t @ [row]"

text \<open>
  The values of the statement, left to right: first the Python expressions (a \<open>card\<close> that
  is no dict has no \<open>get\<close>), then, once the statement is prepared, their binding and the
  NOT NULL constraint of \<open>scryfall_id\<close>.
\<close>

definition snapshot_args :: "json \<Rightarrow> pyerr + json \<times> json \<times> json \<times> json \<times> json" where
  "snapshot_args crd =
     bind_err (py_get crd (ascii ''id'')) (\<lambda>i.
     bind_err (py_get crd (ascii ''name'')) (\<lambda>n.
     bind_err (py_get crd (ascii ''rarity'')) (\<lambda>r.
     bind_err (py_get crd (ascii ''type_line'')) (\<lambda>t.
     bind_err (py_get crd fetched_key) (\<lambda>f.
       Inr (i, n, py_or r (JStr (ascii ''unknown'')), py_or t (JStr []), f))))))"

definition snapshot_values ::
  "sqlite_affinity \<Rightarrow> ustring \<Rightarrow> json \<times> json \<times> json \<times> json \<times> json \<Rightarrow> ustring \<Rightarrow> ustring \<Rightarrow> ustring
     \<Rightarrow> real option \<Rightarrow> pyerr + snapshot_row" where
  "snapshot_values aff date args sc cn fin price =
     (case args of (i, n, r, t, f) \<Rightarrow>
        bind_err (bind_text aff i) (\<lambda>i'.
        bind_err (bind_text aff n) (\<lambda>n'.
        bind_err (bind_text aff r) (\<lambda>r'.
        bind_err (bind_text aff t) (\<lambda>t'.
        bind_err (bind_real aff f) (\<lambda>f'.
          case i' of
            None \<Rightarrow> Inl IntegrityError
          | Some iid \<Rightarrow>
              Inr \<lparr>snapshot_date = date, scryfall_id = iid, s_set_code = sc,
                   s_collector_number = cn, s_finish = fin, name = n', rarity = r',
                   type_line = t', usd = price, fetched_at_epoch = f'\<rparr>))))))"

definition upsert_snapshot ::
  "sqlite_affinity \<Rightarrow> conn \<Rightarrow> ustring \<Rightarrow> json \<Rightarrow> ustring \<Rightarrow> ustring \<Rightarrow> ustring \<Rightarrow> real option
     \<Rightarrow> pyerr + conn" where
  "upsert_snapshot aff c date crd sc cn fin price =
     bind_err (snapshot_args crd) (\<lambda>args.
       case c of
         None \<Rightarrow> Inl DatabaseError
       | Some t \<Rightarrow>
           bind_err (snapshot_values aff date args sc cn fin price) (\<lambda>row.
             Inr (Some (insert_or_replace row t))))"

text \<open>What a reader finds under a primary key.\<close>

definition rows_with_key :: "conn \<Rightarrow> ustring \<times> ustring \<times> ustring \<Rightarrow> snapshot_row list" where
  "rows_with_key c k = (case c of None \<Rightarrow> [] | Some t \<Rightarrow> filter (\<lambda>r. primary_key r = k) t)"

section \<open>Type buckets\<close>

text \<open>
  \<open>str.isspace\<close>: the code points Python's \<open>split()\<close> and \<open>strip()\<close> take for whitespace.
\<close>

definition isspace :: "nat \<Rightarrow> bool" where
  "isspace c \<longleftrightarrow>
     (9 \<le> c \<and> c \<le> 13) \<or> (28 \<le> c \<and> c \<le> 32) \<or> c = 133 \<or> c = 160 \<or> c = 5760 \<or>
     (8192 \<le> c \<and> c \<le> 8202) \<or> c = 8232 \<or> c = 8233 \<or> c = 8239 \<or> c = 8287 \<or> c = 12288"

definition strip :: "ustring \<Rightarrow> ustring" where
  "strip s = rev (dropWhile isspace (rev (dropWhile isspace s)))"

text \<open>\<open>s.split(sep)[0]\<close> for a non-empty \<open>sep\<close>: what stands left of its first occurrence.\<close>

fun split_first :: "ustring \<Rightarrow> ustring \<Rightarrow> ustring" where
  "split_first sep [] = []"
| "split_first sep (c # cs) =
     (if take (length sep) (c # cs) = sep then [] else c # split_first sep cs)"

text \<open>\<open>s.split()\<close>: the maximal runs free of whitespace; \<open>cur\<close> is the run being read, reversed.\<close>

fun split_runs :: "ustring \<Rightarrow> ustring \<Rightarrow> ustring list" where
  "split_runs cur [] = (if cur = [] then [] else [rev cur])"
| "split_runs cur (c # cs) =
     (if isspace c then (if cur = [] then split_runs [] cs else rev cur # split_runs [] cs)
      else split_runs (c # cur) cs)"

definition split_ws :: "ustring \<Rightarrow> ustring list" where
  "split_ws s = split_runs [] s"

definition em_dash :: ustring where
  "em_dash = [8212]"

text \<open>
  The separator written in \<open>scripts/dashboard_data.py\<close>: the three code points
  U+00E2, U+20AC, U+201D (the bytes of an em dash read as Windows-1252).
\<close>

definition dashboard_separator :: ustring where
  "dashboard_separator = [226, 8364, 8221]"

definition Unknown :: ustring where
  "Unknown = ascii ''Unknown''"

text \<open>\<open>type_buckets\<close> of \<open>scripts/validate_csv_to_prices.py\<close>.\<close>

definition type_buckets :: "ustring \<Rightarrow> ustring list" where
  "type_buckets txt =
     (if txt = [] then [Unknown]
      else let left = strip (split_first em_dash txt);
               parts = map strip (filter (\<lambda>p. strip p \<noteq> []) (split_ws left))
           in if parts \<noteq> [] then parts else [Unknown])"

text \<open>\<open>type_buckets\<close> local to \<open>get_dashboard_data\<close> in \<open>scripts/dashboard_data.py\<close>.\<close>

definition dashboard_type_buckets :: "ustring \<Rightarrow> ustring list" where
  "dashboard_type_buckets txt =
     (if txt = [] then [Unknown]
      else let left = strip (split_first dashboard_separator txt);
               parts = map strip (filter (\<lambda>p. strip p \<noteq> []) (split_ws left))
           in if parts \<noteq> [] then parts else [Unknown])"

section \<open>pandas and the Python library\<close>

text \<open>
  A DataFrame is the list of its rows, a nullable float column holding \<open>real option\<close>
  (\<open>None\<close> for NaN); what pandas infers about column types is not modelled. A float that a
  division produces may be infinite or NaN.

  The library functions the scripts call are parameters: \<open>float\<close> and \<open>str\<close> on strings,
  \<open>str.lower\<close>, the calendar (a date as its ordinal), the date of today, and the indexer
  that \<open>sort_values\<close> computes from the keys of a column and its \<open>ascending\<close> flag, with
  the default \<open>kind\<close>, so with no promise about rows of equal key. The rows are taken
  at the positions of the indexer; a position outside the frame, which no indexer of pandas
  returns, takes no row.
\<close>

datatype float64 = Fin real | PosInf | NegInf | NaN

record pyenv =
  float_of_str :: "ustring \<Rightarrow> real option"
  py_repr :: "json \<Rightarrow> ustring"
  py_lower :: "ustring \<Rightarrow> ustring"
  fromisoformat :: "ustring \<Rightarrow> int option"
  isoformat :: "int \<Rightarrow> ustring option"
  today :: ustring
  argsort :: "float64 list \<Rightarrow> bool \<Rightarrow> nat list"

definition py_str :: "pyenv \<Rightarrow> json \<Rightarrow> ustring" where
  "py_str env j = (case j of JStr s \<Rightarrow> s | _ \<Rightarrow> py_repr env j)"

definition sort_values :: "pyenv \<Rightarrow> ('a \<Rightarrow> float64) \<Rightarrow> bool \<Rightarrow> 'a list \<Rightarrow> 'a list" where
  "sort_values env key ascending rows =
     map (\<lambda>i. rows ! i)
       (filter (\<lambda>i. i < length rows) (argsort env (map key rows) ascending))"

definition df_head :: "int \<Rightarrow> 'a list \<Rightarrow> 'a list" where
  "df_head n rows = (if 0 \<le> n then take (nat n) rows else take (length rows - nat (- n)) rows)"

text \<open>\<open>drop_duplicates()\<close> keeps the first of equal rows.\<close>

definition drop_duplicates :: "'a list \<Rightarrow> 'a list" where
  "drop_duplicates xs = rev (remdups (rev xs))"

text \<open>The group keys of \<open>groupby(..., dropna=False)\<close>: sorted, the null key last.\<close>

definition group_keys :: "ustring option list \<Rightarrow> ustring option list" where
  "group_keys ks =
     map Some (sort (remdups (concat (map (\<lambda>k. case k of None \<Rightarrow> [] | Some s \<Rightarrow> [s]) ks))))
     @ (if None \<in> set ks then [None] else [])"

text \<open>\<open>sum\<close> of a nullable column skips the nulls.\<close>

definition sum_skipna :: "real option list \<Rightarrow> real" where
  "sum_skipna vs = sum_list (map (\<lambda>v. case v of None \<Rightarrow> 0 | Some x \<Rightarrow> x) vs)"

section \<open>scripts/dashboard_data.py\<close>

text \<open>
  The collection is the list of rows \<open>load_collection\<close> returns, its keys trimmed and in
  lower case already.
\<close>

record position =
  p_set_code :: ustring
  p_collector_number :: ustring
  p_finish :: ustring
  qty :: int

record holding =
  h_set_code :: ustring
  h_collector_number :: ustring
  h_finish :: ustring
  h_qty :: int
  h_scryfall_id :: ustring
  h_name :: "ustring option"
  h_rarity :: "ustring option"
  h_type_line :: "ustring option"
  h_usd :: "real option"
  position_value_usd :: "real option"

record baseline_row =
  b_scryfall_id :: ustring
  b_finish :: ustring
  usd_baseline :: "real option"

record mover =
  m_holding :: holding
  m_usd_baseline :: real
  delta_usd :: real
  pct_change :: "real option"

record breakdown_row =
  bucket :: "ustring option"
  b_count :: int
  value_usd :: real

record dashboard =
  pricing_mode :: ustring
  pricing_asof :: ustring
  latest_snapshot :: ustring
  baseline_snapshot :: "ustring option"
  total_value_usd :: real
  num_positions :: nat
  latest_owned :: "holding list"
  top_holdings :: "holding list"
  gainers :: "mover list"
  losers :: "mover list"
  rarity_breakdown :: "breakdown_row list"
  type_breakdown :: "breakdown_row list"
  portfolio_ts :: "(ustring \<times> real) list"

text \<open>\<open>SELECT MAX(...)\<close> over a TEXT column: the greatest by code points, NULL for no row.\<close>

definition sql_max :: "ustring list \<Rightarrow> ustring option" where
  "sql_max ds = (case ds of [] \<Rightarrow> None | d # ds' \<Rightarrow> Some (fold max ds' d))"

text \<open>
  \<open>_latest_snapshot_date\<close> and \<open>_snapshot_on_or_before\<close>; \<open>scripts/movers.py\<close> has the
  same two functions under the names used here.
\<close>

definition latest_snapshot_date :: "conn \<Rightarrow> pyerr + ustring" where
  "latest_snapshot_date c =
     (case c of
        None \<Rightarrow> Inl DatabaseError
      | Some t \<Rightarrow>
          (case sql_max (map snapshot_date t) of
             None \<Rightarrow> Inl NoSnapshotsFound
           | Some d \<Rightarrow> if d = [] then Inl NoSnapshotsFound else Inr d))"

definition snapshot_on_or_before :: "conn \<Rightarrow> ustring \<Rightarrow> pyerr + ustring option" where
  "snapshot_on_or_before c target_date =
     (case c of
        None \<Rightarrow> Inl DatabaseError
      | Some t \<Rightarrow>
          (case sql_max (filter (\<lambda>d. d \<le> target_date) (map snapshot_date t)) of
             None \<Rightarrow> Inr None
           | Some d \<Rightarrow> if d = [] then Inr None else Inr (Some d)))"

text \<open>\<open>(date.fromisoformat(latest) - timedelta(days=days)).isoformat()\<close>\<close>

definition target_date :: "pyenv \<Rightarrow> ustring \<Rightarrow> int \<Rightarrow> pyerr + ustring" where
  "target_date env latest days =
     (case fromisoformat env latest of
        None \<Rightarrow> Inl ValueError
      | Some n \<Rightarrow>
          (case isoformat env (n - days) of None \<Rightarrow> Inl OverflowError | Some s \<Rightarrow> Inr s))"

definition select_baseline_rows :: "conn \<Rightarrow> ustring \<Rightarrow> pyerr + baseline_row list" where
  "select_baseline_rows c date =
     (case c of
        None \<Rightarrow> Inl DatabaseError
      | Some t \<Rightarrow>
          Inr (map (\<lambda>r. \<lparr>b_scryfall_id = scryfall_id r, b_finish = s_finish r, usd_baseline = usd r\<rparr>)
                 (filter (\<lambda>r. snapshot_date r = date) t)))"

definition select_rows_for_date :: "conn \<Rightarrow> ustring \<Rightarrow> pyerr + snapshot_row list" where
  "select_rows_for_date c date =
     (case c of None \<Rightarrow> Inl DatabaseError | Some t \<Rightarrow> Inr (filter (\<lambda>r. snapshot_date r = date) t))"

text \<open>Live pricing: one cached lookup for each distinct printing, then one row for each position.\<close>

fun fetch_unique :: "world \<Rightarrow> PrintingKey list \<Rightarrow> int \<Rightarrow> (pyerr + (PrintingKey \<times> json) list) \<times> world" where
  "fetch_unique w [] ttl_hours = (Inr [], w)"
| "fetch_unique w (k # ks) ttl_hours =
     (case fetch_scryfall_card_cached w k ttl_hours of
        (Inl e, w1) \<Rightarrow> (Inl e, w1)
      | (Inr (crd, note), w1) \<Rightarrow>
          (case fetch_unique w1 ks ttl_hours of
             (Inl e, w2) \<Rightarrow> (Inl e, w2)
           | (Inr rest, w2) \<Rightarrow> (Inr ((k, crd) # rest), w2)))"

definition position_key :: "position \<Rightarrow> PrintingKey" where
  "position_key r = \<lparr>set_code = p_set_code r, collector_number = p_collector_number r\<rparr>"

definition times_qty :: "real option \<Rightarrow> int \<Rightarrow> real option" where
  "times_qty price n = (case price of None \<Rightarrow> None | Some u \<Rightarrow> Some (u * of_int n))"

definition live_row :: "pyenv \<Rightarrow> (PrintingKey \<times> json) list \<Rightarrow> position \<Rightarrow> pyerr + holding" where
  "live_row env card_cache r =
     (case map_of card_cache (position_key r) of
        None \<Rightarrow> Inl KeyError
      | Some crd \<Rightarrow>
          bind_err (choose_unit_price_usd (float_of_str env) crd (p_finish r)) (\<lambda>(unit_price, note).
          bind_err (py_get crd (ascii ''name'')) (\<lambda>n.
          bind_err (py_get crd (ascii ''id'')) (\<lambda>i.
          bind_err (py_get crd (ascii ''rarity'')) (\<lambda>ra.
          bind_err (py_get crd (ascii ''type_line'')) (\<lambda>t.
            Inr \<lparr>h_set_code = p_set_code r, h_collector_number = p_collector_number r,
                 h_finish = p_finish r, h_qty = qty r,
                 h_scryfall_id = py_str env (py_or i (JStr [])),
                 h_name = Some (py_str env (py_or n (JStr []))),
                 h_rarity = Some (py_lower env (py_str env (py_or ra (JStr (ascii ''unknown''))))),
                 h_type_line = Some (py_str env (py_or t (JStr []))),
                 h_usd = unit_price,
                 position_value_usd = times_qty unit_price (qty r)\<rparr>))))))"

fun live_rows :: "pyenv \<Rightarrow> (PrintingKey \<times> json) list \<Rightarrow> position list \<Rightarrow> pyerr + holding list" where
  "live_rows env card_cache [] = Inr []"
| "live_rows env card_cache (r # rs) =
     bind_err (live_row env card_cache r) (\<lambda>h.
     bind_err (live_rows env card_cache rs) (\<lambda>hs. Inr (h # hs)))"

definition compute_live_owned ::
  "pyenv \<Rightarrow> world \<Rightarrow> position list \<Rightarrow> int \<Rightarrow> (pyerr + holding list) \<times> world" where
  "compute_live_owned env w owned ttl_hours =
     (case fetch_unique w (drop_duplicates (map position_key owned)) ttl_hours of
        (Inl e, w1) \<Rightarrow> (Inl e, w1)
      | (Inr card_cache, w1) \<Rightarrow> (live_rows env card_cache owned, w1))"

text \<open>The inner merge of the collection with the rows of a date, in the order of the collection.\<close>

definition merge_owned :: "position list \<Rightarrow> snapshot_row list \<Rightarrow> holding list" where
  "merge_owned owned rows =
     concat (map (\<lambda>p.
       map (\<lambda>r. \<lparr>h_set_code = p_set_code p, h_collector_number = p_collector_number p,
                  h_finish = p_finish p, h_qty = qty p, h_scryfall_id = scryfall_id r,
                  h_name = name r, h_rarity = rarity r, h_type_line = type_line r,
                  h_usd = usd r, position_value_usd = times_qty (usd r) (qty p)\<rparr>)
           (filter (\<lambda>r. s_set_code r = p_set_code p \<and> s_collector_number r = p_collector_number p
                         \<and> s_finish r = p_finish p) rows)) owned)"

definition value_key :: "holding \<Rightarrow> float64" where
  "value_key h = (case position_value_usd h of None \<Rightarrow> NaN | Some v \<Rightarrow> Fin v)"

definition top_holdings_of :: "pyenv \<Rightarrow> int \<Rightarrow> holding list \<Rightarrow> holding list" where
  "top_holdings_of env top_n rows =
     df_head top_n (sort_values env value_key False (filter (\<lambda>h. h_usd h \<noteq> None) rows))"

definition breakdown :: "pyenv \<Rightarrow> (ustring option \<times> holding) list \<Rightarrow> breakdown_row list" where
  "breakdown env keyed =
     sort_values env (\<lambda>g. Fin (value_usd g)) False
       (map (\<lambda>k. \<lparr>bucket = k,
                   b_count = sum_list (map (\<lambda>(k', h). h_qty h) (filter (\<lambda>(k', h). k' = k) keyed)),
                   value_usd = sum_skipna (map (\<lambda>(k', h). position_value_usd h)
                                             (filter (\<lambda>(k', h). k' = k) keyed))\<rparr>)
            (group_keys (map fst keyed)))"

definition explode_types :: "holding list \<Rightarrow> (ustring option \<times> holding) list" where
  "explode_types rows =
     concat (map (\<lambda>h. map (\<lambda>b. (Some b, h))
                        (dashboard_type_buckets (case h_type_line h of None \<Rightarrow> [] | Some s \<Rightarrow> s)))
                 rows)"

text \<open>The movers against the rows of the baseline date.\<close>

definition dashboard_movers :: "holding list \<Rightarrow> baseline_row list \<Rightarrow> mover list" where
  "dashboard_movers owned_rows baseline_rows =
     concat (map (\<lambda>h.
       concat (map (\<lambda>b.
         (case (h_usd h, usd_baseline b) of
            (Some u, Some ub) \<Rightarrow>
              [\<lparr>m_holding = h, m_usd_baseline = ub, delta_usd = u - ub,
                pct_change = (if ub \<noteq> 0 then Some ((u - ub) / ub * 100) else None)\<rparr>]
          | _ \<Rightarrow> []))
         (filter (\<lambda>b. b_scryfall_id b = h_scryfall_id h \<and> b_finish b = h_finish h) baseline_rows)))
       owned_rows)"

definition dashboard_gainers :: "pyenv \<Rightarrow> int \<Rightarrow> mover list \<Rightarrow> mover list" where
  "dashboard_gainers env top_n movers =
     df_head top_n (sort_values env (\<lambda>m. Fin (delta_usd m)) False
       (filter (\<lambda>m. delta_usd m > 0) (filter (\<lambda>m. delta_usd m \<noteq> 0) movers)))"

definition dashboard_losers :: "pyenv \<Rightarrow> int \<Rightarrow> mover list \<Rightarrow> mover list" where
  "dashboard_losers env top_n movers =
     df_head top_n (sort_values env (\<lambda>m. Fin (delta_usd m)) True
       (filter (\<lambda>m. delta_usd m < 0) (filter (\<lambda>m. delta_usd m \<noteq> 0) movers)))"

definition get_portfolio_timeseries :: "conn \<Rightarrow> position list \<Rightarrow> pyerr + (ustring \<times> real) list" where
  "get_portfolio_timeseries c owned =
     (case c of
        None \<Rightarrow> Inl DatabaseError
      | Some t \<Rightarrow>
          (let snaps = filter (\<lambda>r. usd r \<noteq> None) t;
               merged = concat (map (\<lambda>p.
                          map (\<lambda>r. (snapshot_date r, times_qty (usd r) (qty p)))
                            (filter (\<lambda>r. s_set_code r = p_set_code p
                                          \<and> s_collector_number r = p_collector_number p
                                          \<and> s_finish r = p_finish p) snaps)) owned)
           in Inr (map (\<lambda>d. (d, sum_skipna (map snd (filter (\<lambda>m. fst m = d) merged))))
                     (sort (remdups (map fst merged))))))"

text \<open>
  The \<open>try\<close> block of \<open>get_dashboard_data\<close>: any exception leaves the three defaults.
\<close>

definition load_history ::
  "pyenv \<Rightarrow> conn \<Rightarrow> int \<Rightarrow> ustring option \<times> ustring option \<times> baseline_row list" where
  "load_history env c days =
     (case bind_err (latest_snapshot_date c) (\<lambda>latest.
           bind_err (target_date env latest days) (\<lambda>target.
           bind_err (snapshot_on_or_before c target) (\<lambda>baseline.
             case baseline of
               None \<Rightarrow> Inr (Some latest, None, [])
             | Some b \<Rightarrow>
                 bind_err (select_baseline_rows c b) (\<lambda>rows. Inr (Some latest, Some b, rows)))))
      of Inl e \<Rightarrow> (None, None, [])
       | Inr h \<Rightarrow> h)"

definition get_dashboard_data ::
  "pyenv \<Rightarrow> conn \<Rightarrow> world \<Rightarrow> position list \<Rightarrow> int \<Rightarrow> int \<Rightarrow> bool \<Rightarrow> (pyerr + dashboard) \<times> world" where
  "get_dashboard_data env c w owned days top_n live_prices =
     (case load_history env c days of (latest, baseline, baseline_rows) \<Rightarrow>
      (case (if live_prices then compute_live_owned env w owned CACHE_TTL_HOURS
             else (case latest of
                     None \<Rightarrow> (Inl NoSnapshotsForSnapshotMode, w)
                   | Some d \<Rightarrow>
                       (bind_err (select_rows_for_date c d) (\<lambda>rows. Inr (merge_owned owned rows)), w)))
       of (Inl e, w1) \<Rightarrow> (Inl e, w1)
        | (Inr rows, w1) \<Rightarrow>
            (let movers = (if baseline \<noteq> None \<and> baseline_rows \<noteq> []
                           then Some (dashboard_movers rows baseline_rows) else None)
             in (bind_err (get_portfolio_timeseries c owned) (\<lambda>ts.
                   Inr \<lparr>pricing_mode = (if live_prices then ascii ''live'' else ascii ''snapshot''),
                        pricing_asof = (if live_prices then today env
                                        else (case latest of None \<Rightarrow> ascii ''N/A'' | Some d \<Rightarrow> d)),
                        latest_snapshot = (case latest of None \<Rightarrow> ascii ''N/A'' | Some d \<Rightarrow> d),
                        baseline_snapshot = baseline,
                        total_value_usd = sum_skipna (map position_value_usd rows),
                        num_positions = length rows,
                        latest_owned = rows,
                        top_holdings = top_holdings_of env top_n rows,
                        gainers = (case movers of None \<Rightarrow> [] | Some ms \<Rightarrow> dashboard_gainers env top_n ms),
                        losers = (case movers of None \<Rightarrow> [] | Some ms \<Rightarrow> dashboard_losers env top_n ms),
                        rarity_breakdown = breakdown env (map (\<lambda>h. (h_rarity h, h)) rows),
                        type_breakdown = breakdown env (explode_types rows),
                        portfolio_ts = ts\<rparr>), w1))))"

section \<open>scripts/movers.py\<close>

record owned_price =
  o_set_code :: ustring
  o_collector_number :: ustring
  o_finish :: ustring
  o_qty :: int
  o_scryfall_id :: ustring
  o_name :: "ustring option"
  o_usd :: "real option"

record report_mover =
  rm_row :: owned_price
  rm_usd_baseline :: real
  rm_delta_usd :: real
  rm_pct_change :: float64

record report =
  r_latest :: ustring
  r_baseline :: ustring
  r_top_holdings :: "(owned_price \<times> real) list"
  r_total_value :: real
  r_gainers :: "report_mover list"
  r_losers :: "report_mover list"

text \<open>Division and product of float columns: a zero divisor gives an infinity or NaN.\<close>

definition f64_div :: "real \<Rightarrow> real \<Rightarrow> float64" where
  "f64_div a b = (if b \<noteq> 0 then Fin (a / b) else if a > 0 then PosInf else if a < 0 then NegInf else NaN)"

fun f64_times :: "float64 \<Rightarrow> real \<Rightarrow> float64" where
  "f64_times (Fin x) c = Fin (x * c)"
| "f64_times PosInf c = (if c > 0 then PosInf else if c < 0 then NegInf else NaN)"
| "f64_times NegInf c = (if c > 0 then NegInf else if c < 0 then PosInf else NaN)"
| "f64_times NaN c = NaN"

fun f64_ne0 :: "float64 \<Rightarrow> bool" where
  "f64_ne0 (Fin x) = (x \<noteq> 0)"
| "f64_ne0 _ = True"

fun f64_gt0 :: "float64 \<Rightarrow> bool" where
  "f64_gt0 (Fin x) = (x > 0)"
| "f64_gt0 PosInf = True"
| "f64_gt0 _ = False"

fun f64_lt0 :: "float64 \<Rightarrow> bool" where
  "f64_lt0 (Fin x) = (x < 0)"
| "f64_lt0 NegInf = True"
| "f64_lt0 _ = False"

definition merge_owned_prices :: "position list \<Rightarrow> snapshot_row list \<Rightarrow> owned_price list" where
  "merge_owned_prices owned rows =
     concat (map (\<lambda>p.
       map (\<lambda>r. \<lparr>o_set_code = p_set_code p, o_collector_number = p_collector_number p,
                  o_finish = p_finish p, o_qty = qty p, o_scryfall_id = scryfall_id r,
                  o_name = name r, o_usd = usd r\<rparr>)
           (filter (\<lambda>r. s_set_code r = p_set_code p \<and> s_collector_number r = p_collector_number p
                         \<and> s_finish r = p_finish p) rows)) owned)"

definition report_movers :: "owned_price list \<Rightarrow> baseline_row list \<Rightarrow> report_mover list" where
  "report_movers owned_rows baseline_rows =
     concat (map (\<lambda>h.
       concat (map (\<lambda>b.
         (case (o_usd h, usd_baseline b) of
            (Some u, Some ub) \<Rightarrow>
              [\<lparr>rm_row = h, rm_usd_baseline = ub, rm_delta_usd = u - ub,
                rm_pct_change = f64_times (f64_div (u - ub) ub) 100\<rparr>]
          | _ \<Rightarrow> []))
         (filter (\<lambda>b. b_scryfall_id b = o_scryfall_id h \<and> b_finish b = o_finish h) baseline_rows)))
       owned_rows)"

text \<open>The holdings with a price, each with its value, and the Top-N that \<open>main\<close> prints.\<close>

definition priced_holdings :: "owned_price list \<Rightarrow> (owned_price \<times> real) list" where
  "priced_holdings owned_rows =
     concat (map (\<lambda>h. case o_usd h of None \<Rightarrow> [] | Some u \<Rightarrow> [(h, u * of_int (o_qty h))]) owned_rows)"

definition report_top_holdings ::
  "pyenv \<Rightarrow> int \<Rightarrow> (owned_price \<times> real) list \<Rightarrow> (owned_price \<times> real) list" where
  "report_top_holdings env top_n holdings =
     (if holdings = [] then []
      else df_head top_n (sort_values env (\<lambda>x. Fin (snd x)) False holdings))"

definition movers_main :: "pyenv \<Rightarrow> conn \<Rightarrow> position list \<Rightarrow> int \<Rightarrow> int \<Rightarrow> ustring \<Rightarrow> pyerr + report" where
  "movers_main env c owned days top_n sort_mode =
     bind_err (latest_snapshot_date c) (\<lambda>latest.
     bind_err (target_date env latest days) (\<lambda>target.
     bind_err (snapshot_on_or_before c target) (\<lambda>baseline.
       case baseline of
         None \<Rightarrow> Inl NotEnoughHistory
       | Some b \<Rightarrow>
           bind_err (select_rows_for_date c latest) (\<lambda>latest_rows.
           bind_err (select_baseline_rows c b) (\<lambda>baseline_rows.
             let owned_rows = merge_owned_prices owned latest_rows;
                 holdings = priced_holdings owned_rows;
                 movers = report_movers owned_rows baseline_rows;
                 sort_col = (if sort_mode = ascii ''abs'' then (\<lambda>m. Fin (rm_delta_usd m))
                             else rm_pct_change);
                 moved = filter (\<lambda>m. f64_ne0 (sort_col m)) movers
             in Inr \<lparr>r_latest = latest, r_baseline = b,
                     r_top_holdings = report_top_holdings env top_n holdings,
                     r_total_value = sum_list (map snd holdings),
                     r_gainers = df_head top_n (sort_values env sort_col False
                                   (filter (\<lambda>m. f64_gt0 (sort_col m)) moved)),
                     r_losers = df_head top_n (sort_values env sort_col True
                                   (filter (\<lambda>m. f64_lt0 (sort_col m)) moved))\<rparr>)))))"

section \<open>Notions of the specification and example data\<close>

text \<open>
  A price field is absent when \<open>to_float\<close> takes it for no price (a missing key reads as
  \<open>None\<close>), and present with value \<open>v\<close> when it is not absent and \<open>float\<close> reads \<open>v\<close>.
\<close>

definition absent :: "json \<Rightarrow> bool" where
  "absent x \<longleftrightarrow> x = JNull \<or> x = JStr [] \<or> x = JStr (ascii ''null'')"

definition present :: "(ustring \<Rightarrow> real option) \<Rightarrow> json \<Rightarrow> real \<Rightarrow> bool" where
  "present sf x v \<longleftrightarrow> \<not> absent x \<and> py_float sf x = Inr v"

definition ex_float :: "ustring \<Rightarrow> real option" where
  "ex_float s = (if s = ascii ''1.50'' then Some 1.5 else if s = ascii ''4.00'' then Some 4 else None)"

definition ex_prices :: "json \<Rightarrow> json \<Rightarrow> pydict" where
  "ex_prices u f = [(ascii ''name'', JStr (ascii ''Opt'')),
                    (ascii ''prices'', JObj [(ascii ''usd'', u), (ascii ''usd_foil'', f)])]"

text \<open>
  The record of a key is well-formed when, if it decodes at all, it decodes to a JSON object
  whose timestamp, if a number, is one that \<open>float\<close> reads, as in every record that
  \<open>cache_set\<close> writes. A fresh payload: the record decodes to an object with a numeric
  timestamp of age at most the TTL at the next reading of the clock.
\<close>

definition is_object :: "json \<Rightarrow> bool" where
  "is_object j = (case j of JObj d \<Rightarrow> True | _ \<Rightarrow> False)"

definition stamp_of :: "pydict \<Rightarrow> real option" where
  "stamp_of d =
     (if is_number (dict_get d fetched_key)
      then (case float_of_number (dict_get d fetched_key) of Inl e \<Rightarrow> None | Inr t \<Rightarrow> Some t)
      else None)"

definition record_wellformed :: "world \<Rightarrow> PrintingKey \<Rightarrow> bool" where
  "record_wellformed w key =
     (case files w (cache_filename key) of
        Some (Decoded (JObj d)) \<Rightarrow>
          (case float_of_number (dict_get d fetched_key) of Inl OverflowError \<Rightarrow> False | _ \<Rightarrow> True)
      | Some (Decoded _) \<Rightarrow> False
      | _ \<Rightarrow> True)"

definition fresh_payload :: "world \<Rightarrow> PrintingKey \<Rightarrow> int \<Rightarrow> json option" where
  "fresh_payload w key ttl_hours =
     (case files w (cache_filename key) of
        Some (Decoded (JObj d)) \<Rightarrow>
          (case stamp_of d of
             Some t \<Rightarrow> if clock w (ticks w) - t \<le> of_int (ttl_hours * 3600)
                       then Some (JObj d) else None
           | None \<Rightarrow> None)
      | _ \<Rightarrow> None)"

definition stamped :: "real \<Rightarrow> pydict \<Rightarrow> json" where
  "stamped t crd = JObj (AList.update fetched_key (JFloat t) crd)"

definition without_record :: "world \<Rightarrow> PrintingKey \<Rightarrow> world" where
  "without_record w key = w\<lparr>files := (files w)(cache_filename key := None)\<rparr>"

definition ex_key :: PrintingKey where
  "ex_key = \<lparr>set_code = ascii ''znr'', collector_number = ascii ''12''\<rparr>"

definition ex_card :: pydict where
  "ex_card = (ascii ''id'', JStr (ascii ''a1'')) # ex_prices (JStr (ascii ''1.50'')) JNull"

definition ex_world :: "stored option \<Rightarrow> real \<Rightarrow> world" where
  "ex_world rec t0 =
     \<lparr>files = (\<lambda>f. if f = cache_filename ex_key then rec else None),
      remote = (\<lambda>u. if u = card_url (set_code ex_key) (collector_number ex_key)
                     then Inr ex_card else Inl RequestError),
      requests = [],
      clock = (\<lambda>n. t0 + of_nat n),
      ticks = 0\<rparr>"

text \<open>The rows of a connection, none where the table is missing.\<close>

definition table_rows :: "conn \<Rightarrow> snapshot_row list" where
  "table_rows c = (case c of None \<Rightarrow> [] | Some t \<Rightarrow> t)"

definition ex_aff :: sqlite_affinity where
  "ex_aff = \<lparr>num_text = (\<lambda>j. []), text_real = (\<lambda>s. None)\<rparr>"

definition ex_row :: "ustring \<Rightarrow> ustring \<Rightarrow> real option \<Rightarrow> snapshot_row" where
  "ex_row date fin price =
     \<lparr>snapshot_date = date, scryfall_id = ascii ''a1'', s_set_code = ascii ''znr'',
      s_collector_number = ascii ''12'', s_finish = fin, name = Some (ascii ''Opt''),
      rarity = Some (ascii ''unknown''), type_line = Some [], usd = price,
      fetched_at_epoch = SqlNull\<rparr>"

text \<open>The type text \<open>Artifact Creature\<close>, an em dash, \<open>Golem\<close>.\<close>

definition golem_type_line :: ustring where
  "golem_type_line = ascii ''Artifact Creature '' @ em_dash @ ascii '' Golem''"

text \<open>
  What the default sort promises of the indexer on a list of keys that are numbers: it
  permutes the positions and puts the keys in the order asked for.
\<close>

definition orders_keys :: "(float64 list \<Rightarrow> bool \<Rightarrow> nat list) \<Rightarrow> real list \<Rightarrow> bool \<Rightarrow> bool" where
  "orders_keys f xs ascending \<longleftrightarrow>
     mset (f (map Fin xs) ascending) = mset [0..<length xs] \<and>
     sorted_wrt (\<lambda>i j. if ascending then xs ! i \<le> xs ! j else xs ! j \<le> xs ! i)
       (f (map Fin xs) ascending)"

definition argsort_sorts :: "(float64 list \<Rightarrow> bool \<Rightarrow> nat list) \<Rightarrow> bool" where
  "argsort_sorts f \<longleftrightarrow> (\<forall>xs ascending. orders_keys f xs ascending)"

text \<open>An indexer that sorts by insertion, so keeps rows of equal key in their order.\<close>

definition fin_key :: "float64 \<Rightarrow> real" where
  "fin_key k = (case k of Fin x \<Rightarrow> x | _ \<Rightarrow> 0)"

definition stable_argsort :: "float64 list \<Rightarrow> bool \<Rightarrow> nat list" where
  "stable_argsort ks ascending =
     (if ascending then sort_key (\<lambda>i. fin_key (ks ! i)) [0..<length ks]
      else sort_key (\<lambda>i. - fin_key (ks ! i)) [0..<length ks])"

text \<open>
  The indexer of pandas on a machine with AVX-512. pandas (\<open>nargsort\<close>) sorts descending
  by reversing the keys, taking numpy's \<open>argsort\<close> of them and reversing the result.
  numpy's \<open>argsort\<close> of up to eight doubles (x86-simd-sort) puts the keys with their
  positions in the eight lanes of one register, the free lanes holding infinity, and runs a
  network of six compare-exchange steps: each lane takes the lesser or the greater of its
  key and the key of its partner lane, and keeps its position when the key it takes equals
  the key it had. Longer lists, which the examples do not have, are sorted by insertion here.
\<close>

fun f64_le :: "float64 \<Rightarrow> float64 \<Rightarrow> bool" where
  "f64_le NaN b = False"
| "f64_le a NaN = False"
| "f64_le NegInf b = True"
| "f64_le a PosInf = True"
| "f64_le (Fin x) (Fin y) = (x \<le> y)"
| "f64_le a b = False"

definition f64_min :: "float64 \<Rightarrow> float64 \<Rightarrow> float64" where
  "f64_min a b = (if f64_le a b then a else b)"

definition f64_max :: "float64 \<Rightarrow> float64 \<Rightarrow> float64" where
  "f64_max a b = (if f64_le a b then b else a)"

definition cmp_merge :: "nat list \<Rightarrow> bool list \<Rightarrow> (float64 \<times> nat) list \<Rightarrow> (float64 \<times> nat) list" where
  "cmp_merge partner high lanes =
     map (\<lambda>((k1, i1), p, h).
            let (k2, i2) = lanes ! p;
                k = (if h then f64_max k1 k2 else f64_min k1 k2)
            in (k, if k = k1 then i1 else i2))
         (zip lanes (zip partner high))"

definition sort_zmm :: "(float64 \<times> nat) list \<Rightarrow> (float64 \<times> nat) list" where
  "sort_zmm lanes =
     (let odd = [False, True, False, True, False, True, False, True];
          upper2 = [False, False, True, True, False, False, True, True];
          upper4 = [False, False, False, False, True, True, True, True];
          swap1 = [1, 0, 3, 2, 5, 4, 7, 6];
          swap2 = [2, 3, 0, 1, 6, 7, 4, 5];
          rev4 = [3, 2, 1, 0, 7, 6, 5, 4];
          rev8 = [7, 6, 5, 4, 3, 2, 1, 0]
      in cmp_merge swap1 odd (cmp_merge swap2 upper2 (cmp_merge rev8 upper4
           (cmp_merge swap1 odd (cmp_merge rev4 upper2 (cmp_merge swap1 odd lanes))))))"

definition simd_argsort :: "float64 list \<Rightarrow> nat list" where
  "simd_argsort ks =
     (if length ks \<le> 8
      then take (length ks)
             (map snd (sort_zmm (zip (ks @ replicate (8 - length ks) PosInf) [0..<8])))
      else stable_argsort ks True)"

definition nargsort :: "(float64 list \<Rightarrow> nat list) \<Rightarrow> float64 list \<Rightarrow> bool \<Rightarrow> nat list" where
  "nargsort sorter ks ascending =
     (if ascending then sorter ks
      else rev (map (\<lambda>j. length ks - 1 - j) (sorter (rev ks))))"

text \<open>
  The first \<open>k\<close> of a list in descending order of value: \<open>chosen\<close> is made of members of
  the list, as many as \<open>k\<close> allows, in descending order, no member left out is worth
  more than one taken, and the values are the \<open>k\<close> greatest.
\<close>

definition is_top_n :: "('a \<Rightarrow> real) \<Rightarrow> nat \<Rightarrow> 'a list \<Rightarrow> 'a list \<Rightarrow> bool" where
  "is_top_n val k base chosen \<longleftrightarrow>
     mset chosen \<subseteq># mset base \<and>
     length chosen = min k (length base) \<and>
     sorted_wrt (\<lambda>a b. val b \<le> val a) chosen \<and>
     (\<forall>a \<in> set chosen. \<forall>b \<in># mset base - mset chosen. val b \<le> val a) \<and>
     map val chosen = take k (rev (sort (map val base)))"

text \<open>
  The rows that \<open>get_dashboard_data\<close> values: the position value of each is its price
  times its quantity. \<open>pv\<close> reads the value of a priced row.
\<close>

definition valued :: "holding list \<Rightarrow> bool" where
  "valued rows \<longleftrightarrow> (\<forall>h \<in> set rows. position_value_usd h = times_qty (h_usd h) (h_qty h))"

definition pv :: "holding \<Rightarrow> real" where
  "pv h = (case position_value_usd h of None \<Rightarrow> 0 | Some v \<Rightarrow> v)"

definition priced :: "holding list \<Rightarrow> holding list" where
  "priced rows = filter (\<lambda>h. h_usd h \<noteq> None) rows"

text \<open>
  The Top-N of the specification: a stable sort (insertion sort) of the priced rows by
  value, greatest first, cut to the first N.
\<close>

definition stable_top_n :: "int \<Rightarrow> holding list \<Rightarrow> holding list" where
  "stable_top_n n rows = take (nat n) (sort_key (\<lambda>h. - pv h) (priced rows))"

definition stable_report_top_n :: "int \<Rightarrow> (owned_price \<times> real) list \<Rightarrow> (owned_price \<times> real) list" where
  "stable_report_top_n n holdings = take (nat n) (sort_key (\<lambda>x. - snd x) holdings)"

definition ex_fromisoformat :: "ustring \<Rightarrow> int option" where
  "ex_fromisoformat s =
     (if s = ascii ''2025-01-08'' then Some 8 else if s = ascii ''2025-01-15'' then Some 15 else None)"

definition ex_isoformat :: "int \<Rightarrow> ustring option" where
  "ex_isoformat n =
     (if n = 1 then Some (ascii ''2025-01-01'') else if n = 8 then Some (ascii ''2025-01-08'')
      else if n = 15 then Some (ascii ''2025-01-15'') else None)"

definition ex_env :: "(float64 list \<Rightarrow> bool \<Rightarrow> nat list) \<Rightarrow> pyenv" where
  "ex_env f =
     \<lparr>float_of_str = ex_float, py_repr = (\<lambda>j. []), py_lower = (\<lambda>s. s),
      fromisoformat = ex_fromisoformat, isoformat = ex_isoformat,
      today = ascii ''2025-01-15'', argsort = f\<rparr>"

definition ex_holding :: "ustring \<Rightarrow> real \<Rightarrow> int \<Rightarrow> holding" where
  "ex_holding cn price n =
     \<lparr>h_set_code = ascii ''znr'', h_collector_number = cn, h_finish = ascii ''nonfoil'',
      h_qty = n, h_scryfall_id = cn, h_name = None, h_rarity = None, h_type_line = None,
      h_usd = Some price, position_value_usd = Some (price * of_int n)\<rparr>"

text \<open>One owned position, and a table with its price on the given dates.\<close>

definition ex_owned :: "position list" where
  "ex_owned = [\<lparr>p_set_code = ascii ''znr'', p_collector_number = ascii ''12'',
                p_finish = ascii ''nonfoil'', qty = 1\<rparr>]"

definition ex_store :: "(ustring \<times> real) list \<Rightarrow> conn" where
  "ex_store prices = Some (map (\<lambda>(d, u). ex_row d (ascii ''nonfoil'') (Some u)) prices)"

text \<open>Four positions worth 1, 1, 2 and 2, as holdings of the dashboard and of the report.\<close>

definition tie_rows :: "holding list" where
  "tie_rows = [ex_holding [49] 1 1, ex_holding [50] 1 1, ex_holding [51] 2 1, ex_holding [52] 2 1]"

definition ex_owned_price :: "ustring \<Rightarrow> real \<Rightarrow> owned_price" where
  "ex_owned_price cn price =
     \<lparr>o_set_code = ascii ''znr'', o_collector_number = cn, o_finish = ascii ''nonfoil'',
      o_qty = 1, o_scryfall_id = cn, o_name = None, o_usd = Some price\<rparr>"

definition tie_owned_rows :: "owned_price list" where
  "tie_owned_rows = [ex_owned_price [49] 1, ex_owned_price [50] 1, ex_owned_price [51] 2,
                     ex_owned_price [52] 2]"

definition simd_env :: pyenv where
  "simd_env = ex_env (nargsort simd_argsort)"

section \<open>The unit price of a finish\<close>

lemma to_float_absent: "absent x \<Longrightarrow> to_float sf x = Inr None"
  by (simp add: to_float_def absent_def)

lemma to_float_present: "present sf x v \<Longrightarrow> to_float sf x = Inr (Some v)"
  by (auto simp add: to_float_def absent_def present_def bind_err_def)

lemma foil_neq_nonfoil: "ascii ''nonfoil'' \<noteq> ascii ''foil''"
  by (simp add: ascii_def)

text \<open>
  C3. For a payload whose two price fields are each absent or readable as a float, the unit
  price for finish foil is the foil price when present, else the nonfoil price with the
  fallback marker, else no price; for finish nonfoil the same with the two fields swapped.
\<close>

theorem choose_unit_price_usd_by_finish:
  assumes prices: "py_or (dict_get c (ascii ''prices'')) (JObj []) = JObj p"
    and u: "u = dict_get p (ascii ''usd'')"
    and f: "f = dict_get p (ascii ''usd_foil'')"
  shows "(present sf f vf \<and> (absent u \<or> present sf u vu) \<longrightarrow>
           choose_unit_price_usd sf (JObj c) (ascii ''foil'') = Inr (Some vf, ascii ''ok'')) \<and>
         (absent f \<and> present sf u vu \<longrightarrow>
           choose_unit_price_usd sf (JObj c) (ascii ''foil'') = Inr (Some vu, ascii ''fallback_used:usd'')) \<and>
         (absent f \<and> absent u \<longrightarrow>
           choose_unit_price_usd sf (JObj c) (ascii ''foil'') = Inr (None, ascii ''missing_price_usd'')) \<and>
         (present sf u vu \<and> (absent f \<or> present sf f vf) \<longrightarrow>
           choose_unit_price_usd sf (JObj c) (ascii ''nonfoil'') = Inr (Some vu, ascii ''ok'')) \<and>
         (absent u \<and> present sf f vf \<longrightarrow>
           choose_unit_price_usd sf (JObj c) (ascii ''nonfoil'') = Inr (Some vf, ascii ''fallback_used:usd_foil'')) \<and>
         (absent u \<and> absent f \<longrightarrow>
           choose_unit_price_usd sf (JObj c) (ascii ''nonfoil'') = Inr (None, ascii ''missing_price_usd''))"
  using prices foil_neq_nonfoil unfolding u f
  by (auto simp add: choose_unit_price_usd_def bind_err_def to_float_absent to_float_present)

lemma ex_prices_get:
  "py_or (dict_get (ex_prices u f) (ascii ''prices'')) (JObj []) = JObj [(ascii ''usd'', u), (ascii ''usd_foil'', f)]"
  "dict_get [(ascii ''usd'', u), (ascii ''usd_foil'', f)] (ascii ''usd'') = u"
  "dict_get [(ascii ''usd'', u), (ascii ''usd_foil'', f)] (ascii ''usd_foil'') = f"
  by (simp_all add: ex_prices_def dict_get_def py_or_def ascii_def)

theorem choose_unit_price_usd_by_finish_witness:
  "choose_unit_price_usd ex_float (JObj (ex_prices (JStr (ascii ''1.50'')) (JStr (ascii ''4.00'')))) (ascii ''foil'')
     = Inr (Some 4, ascii ''ok'') \<and>
   choose_unit_price_usd ex_float (JObj (ex_prices (JStr (ascii ''1.50'')) JNull)) (ascii ''foil'')
     = Inr (Some 1.5, ascii ''fallback_used:usd'') \<and>
   choose_unit_price_usd ex_float (JObj (ex_prices JNull JNull)) (ascii ''foil'')
     = Inr (None, ascii ''missing_price_usd'') \<and>
   choose_unit_price_usd ex_float (JObj (ex_prices (JStr (ascii ''1.50'')) (JStr (ascii ''4.00'')))) (ascii ''nonfoil'')
     = Inr (Some 1.5, ascii ''ok'') \<and>
   choose_unit_price_usd ex_float (JObj (ex_prices JNull (JStr (ascii ''4.00'')))) (ascii ''nonfoil'')
     = Inr (Some 4, ascii ''fallback_used:usd_foil'') \<and>
   choose_unit_price_usd ex_float (JObj (ex_prices JNull JNull)) (ascii ''nonfoil'')
     = Inr (None, ascii ''missing_price_usd'')"
proof -
  note inst = choose_unit_price_usd_by_finish[where sf = ex_float and vf = 4 and vu = "1.5",
          OF ex_prices_get(1) ex_prices_get(2)[symmetric] ex_prices_get(3)[symmetric]]
  have p1: "present ex_float (JStr (ascii ''1.50'')) 1.5"
    and p4: "present ex_float (JStr (ascii ''4.00'')) 4"
    and a0: "absent JNull"
    by (simp_all add: present_def absent_def ex_float_def ascii_def)
  from inst[where u = "JStr (ascii ''1.50'')" and f = "JStr (ascii ''4.00'')"] p1 p4
  have both: "choose_unit_price_usd ex_float
        (JObj (ex_prices (JStr (ascii ''1.50'')) (JStr (ascii ''4.00'')))) (ascii ''foil'')
          = Inr (Some 4, ascii ''ok'')"
       "choose_unit_price_usd ex_float
        (JObj (ex_prices (JStr (ascii ''1.50'')) (JStr (ascii ''4.00'')))) (ascii ''nonfoil'')
          = Inr (Some 1.5, ascii ''ok'')"
    by blast+
  from inst[where u = "JStr (ascii ''1.50'')" and f = JNull] p1 a0
  have only_usd: "choose_unit_price_usd ex_float (JObj (ex_prices (JStr (ascii ''1.50'')) JNull))
        (ascii ''foil'') = Inr (Some 1.5, ascii ''fallback_used:usd'')"
    by blast
  from inst[where u = JNull and f = "JStr (ascii ''4.00'')"] p4 a0
  have only_foil: "choose_unit_price_usd ex_float (JObj (ex_prices JNull (JStr (ascii ''4.00''))))
        (ascii ''nonfoil'') = Inr (Some 4, ascii ''fallback_used:usd_foil'')"
    by blast
  from inst[where u = JNull and f = JNull] a0
  have none: "choose_unit_price_usd ex_float (JObj (ex_prices JNull JNull)) (ascii ''foil'')
          = Inr (None, ascii ''missing_price_usd'')"
       "choose_unit_price_usd ex_float (JObj (ex_prices JNull JNull)) (ascii ''nonfoil'')
          = Inr (None, ascii ''missing_price_usd'')"
    by blast+
  from both only_usd only_foil none show ?thesis by blast
qed

section \<open>The disk cache\<close>

lemma dict_get_update: "dict_get (AList.update k v d) k' = (if k' = k then v else dict_get d k')"
  by (simp add: dict_get_def update_conv')

lemma stamp_of_stamped: "stamp_of (AList.update fetched_key (JFloat t) crd) = Some t"
  by (simp add: stamp_of_def dict_get_update float_of_number_def)

lemma cache_set_writes_wellformed: "record_wellformed (cache_set w key crd) key"
  by (simp add: record_wellformed_def cache_set_def time_time_def dict_get_update
      float_of_number_def)

lemma cache_get_only_ticks:
  "files (snd (cache_get w key ttl)) = files w \<and> requests (snd (cache_get w key ttl)) = requests w
   \<and> remote (snd (cache_get w key ttl)) = remote w \<and> clock (snd (cache_get w key ttl)) = clock w"
  by (simp add: cache_get_def time_time_def Let_def
      split: option.splits stored.splits sum.splits)

lemma resolve_hit:
  assumes "fresh_payload w key ttl = Some data"
  shows "fetch_scryfall_card_cached w key ttl
           = (Inr (data, ascii ''cache_hit''), w\<lparr>ticks := Suc (ticks w)\<rparr>)"
  using assms
  by (auto simp add: fresh_payload_def stamp_of_def fetch_scryfall_card_cached_def cache_get_def
      time_time_def split: option.splits stored.splits json.splits if_splits sum.splits)

lemma cache_get_miss:
  assumes "fresh_payload w key ttl = None" "record_wellformed w key"
  shows "fst (cache_get w key ttl) = Inr None"
proof (cases "files w (cache_filename key)")
  case None
  then show ?thesis by (simp add: cache_get_def)
next
  case (Some s)
  show ?thesis
  proof (cases s)
    case Undecodable
    with Some show ?thesis by (simp add: cache_get_def)
  next
    case (Decoded j)
    with Some assms(2) obtain d where j: "j = JObj d"
      by (cases j) (simp_all add: record_wellformed_def)
    show ?thesis
    proof (cases "is_number (dict_get d fetched_key)")
      case False
      with Some Decoded j show ?thesis by (simp add: cache_get_def)
    next
      case True
      from assms(2) Some Decoded j
      have no: "float_of_number (dict_get d fetched_key) \<noteq> Inl OverflowError"
        by (auto simp add: record_wellformed_def split: sum.splits pyerr.splits)
      from True obtain t where t: "float_of_number (dict_get d fetched_key) = Inr t"
        using no
        by (cases "dict_get d fetched_key")
           (auto simp add: float_of_number_def float_of_int_def split: if_splits)
      from assms(1) Some Decoded j True t
      have "\<not> clock w (ticks w) - t \<le> of_int (ttl * 3600)"
        by (auto simp add: fresh_payload_def stamp_of_def split: if_splits)
      with Some Decoded j True t show ?thesis
        by (simp add: cache_get_def time_time_def)
    qed
  qed
qed

lemma cache_get_non_object:
  assumes "files w (cache_filename key) = Some (Decoded j)" and "\<not> is_object j"
  shows "cache_get w key ttl = (Inl AttributeError, w)"
  using assms by (cases j) (simp_all add: cache_get_def is_object_def)

lemma cache_get_stamp_overflow:
  assumes "files w (cache_filename key) = Some (Decoded (JObj d))"
    and "dict_get d fetched_key = JInt i" and "float_limit \<le> \<bar>i\<bar>"
  shows "cache_get w key ttl = (Inl OverflowError, w\<lparr>ticks := Suc (ticks w)\<rparr>)"
  using assms
  by (simp add: cache_get_def time_time_def float_of_number_def float_of_int_def)

lemma resolve_keeps_records_wellformed:
  assumes "record_wellformed w k"
  shows "record_wellformed (snd (fetch_scryfall_card_cached w key ttl)) k"
proof -
  have f: "files (snd (cache_get w key ttl)) = files w"
    using cache_get_only_ticks by blast
  obtain g w1 where g: "cache_get w key ttl = (g, w1)" by (cases "cache_get w key ttl")
  with f have w1: "files w1 = files w" by simp
  have same: "record_wellformed w1 k" "record_wellformed (w1\<lparr>requests := rq\<rparr>) k" for rq
    using assms w1 by (simp_all add: record_wellformed_def)
  have set: "record_wellformed (cache_set w2 key crd) k" if "record_wellformed w2 k" for w2 crd
  proof (cases "cache_filename k = cache_filename key")
    case True
    then show ?thesis
      using cache_set_writes_wellformed[of w2 key crd] by (simp add: record_wellformed_def)
  next
    case False
    with that show ?thesis
      by (simp add: record_wellformed_def cache_set_def time_time_def)
  qed
  show ?thesis
  proof (cases g)
    case (Inl e)
    with g same show ?thesis by (simp add: fetch_scryfall_card_cached_def)
  next
    case (Inr o1)
    show ?thesis
    proof (cases o1)
      case (Some c)
      with g Inr same show ?thesis by (simp add: fetch_scryfall_card_cached_def)
    next
      case None
      show ?thesis
      proof (cases "remote w1 (card_url (set_code key) (collector_number key))")
        case (Inl e)
        with g Inr None same show ?thesis
          by (simp add: fetch_scryfall_card_cached_def fetch_scryfall_card_def Let_def)
      next
        case (Inr crd)
        with g \<open>g = Inr o1\<close> None set[OF same(2)] show ?thesis
          by (simp add: fetch_scryfall_card_cached_def fetch_scryfall_card_def Let_def)
      qed
    qed
  qed
qed

lemma resolve_wellformed_record:
  assumes "record_wellformed w key"
  shows "let (r, w') = fetch_scryfall_card_cached w key ttl;
             url = card_url (set_code key) (collector_number key)
         in (case fresh_payload w key ttl of
               Some data \<Rightarrow>
                 r = Inr (data, ascii ''cache_hit'') \<and> requests w' = requests w \<and> files w' = files w
             | None \<Rightarrow>
                 requests w' = requests w @ [url] \<and>
                 (case remote w url of
                    Inl e \<Rightarrow> r = Inl e \<and> files w' = files w
                  | Inr crd \<Rightarrow>
                      r = Inr (JObj crd, ascii ''cache_miss_fetched'') \<and>
                      files w' = (files w)(cache_filename key \<mapsto>
                        Decoded (stamped (clock w (ticks (snd (cache_get w key ttl)))) crd))))"
proof (cases "fresh_payload w key ttl")
  case (Some data)
  then show ?thesis by (simp add: resolve_hit)
next
  case None
  obtain g w1 where g: "cache_get w key ttl = (g, w1)" by (cases "cache_get w key ttl")
  with cache_get_miss[OF None assms] have g': "cache_get w key ttl = (Inr None, w1)" by simp
  from cache_get_only_ticks[of w key ttl] g
  have w1: "files w1 = files w" "requests w1 = requests w" "remote w1 = remote w" "clock w1 = clock w"
    by simp_all
  show ?thesis
    using None g' w1
    by (auto simp add: fetch_scryfall_card_cached_def fetch_scryfall_card_def cache_set_def
        time_time_def stamped_def Let_def split: sum.splits)
qed

lemma ex_fresh:
  "fresh_payload (ex_world (Some (Decoded (stamped 1000 ex_card))) 2000) ex_key 12
     = Some (stamped 1000 ex_card)"
  by (simp add: fresh_payload_def ex_world_def stamped_def stamp_of_stamped)

lemma ex_stale:
  "fresh_payload (ex_world (Some (Decoded (stamped 1000 ex_card))) 100000) ex_key 12 = None"
  by (simp add: fresh_payload_def ex_world_def stamped_def stamp_of_stamped)

lemma ex_stale_ticks:
  "ticks (snd (cache_get (ex_world (Some (Decoded (stamped 1000 ex_card))) 100000) ex_key 12)) = 1"
  by (simp add: cache_get_def ex_world_def stamped_def dict_get_update time_time_def
      float_of_number_def)

lemma resolve_wellformed_record_examples:
  "(let w = ex_world (Some (Decoded (stamped 1000 ex_card))) 2000;
        (r, w') = fetch_scryfall_card_cached w ex_key 12
    in record_wellformed w ex_key \<and> r = Inr (stamped 1000 ex_card, ascii ''cache_hit'') \<and>
       requests w' = [] \<and> files w' = files w) \<and>
   (let w = ex_world (Some (Decoded (stamped 1000 ex_card))) 100000;
        (r, w') = fetch_scryfall_card_cached w ex_key 12
    in record_wellformed w ex_key \<and> r = Inr (JObj ex_card, ascii ''cache_miss_fetched'') \<and>
       requests w' = [card_url (ascii ''znr'') (ascii ''12'')] \<and>
       files w' (cache_filename ex_key) = Some (Decoded (stamped 100001 ex_card)))"
proof -
  let ?w1 = "ex_world (Some (Decoded (stamped 1000 ex_card))) 2000"
  let ?w2 = "ex_world (Some (Decoded (stamped 1000 ex_card))) 100000"
  have o1: "record_wellformed ?w1 ex_key" and o2: "record_wellformed ?w2 ex_key"
    by (simp_all add: record_wellformed_def ex_world_def stamped_def dict_get_update
        float_of_number_def)
  have url: "card_url (set_code ex_key) (collector_number ex_key) = card_url (ascii ''znr'') (ascii ''12'')"
    by (simp add: ex_key_def)
  from resolve_wellformed_record[OF o1, of 12] ex_fresh o1
  have hit: "let (r, w') = fetch_scryfall_card_cached ?w1 ex_key 12
    in record_wellformed ?w1 ex_key \<and> r = Inr (stamped 1000 ex_card, ascii ''cache_hit'') \<and>
       requests w' = [] \<and> files w' = files ?w1"
    by (simp add: split_def Let_def ex_world_def)
  have rem: "remote ?w2 (card_url (ascii ''znr'') (ascii ''12'')) = Inr ex_card"
      "requests ?w2 = []" "clock ?w2 1 = 100001"
    by (simp_all add: ex_world_def ex_key_def)
  from resolve_wellformed_record[OF o2, of 12] ex_stale ex_stale_ticks o2 url rem
  have miss: "let (r, w') = fetch_scryfall_card_cached ?w2 ex_key 12
    in record_wellformed ?w2 ex_key \<and> r = Inr (JObj ex_card, ascii ''cache_miss_fetched'') \<and>
       requests w' = [card_url (ascii ''znr'') (ascii ''12'')] \<and>
       files w' (cache_filename ex_key) = Some (Decoded (stamped 100001 ex_card))"
    by (simp add: split_def Let_def)
  from hit miss show ?thesis by simp
qed

text \<open>
  C1. A record that decodes but is not what \<open>cache_set\<close> writes is no fresh payload, and
  still the resolve sends no request: for the record \<open>[]\<close> (JSON, not an object) it ends in
  AttributeError, and for an object whose timestamp is an int beyond the doubles in
  OverflowError, the catalog having the payload and the files staying as they were. For
  every well-formed record the resolve does return the fresh payload or send its one
  request (lemma \<open>resolve_wellformed_record\<close>).
\<close>

theorem resolve_raises_on_malformed_record:
  "(let w = ex_world (Some (Decoded (JArr []))) 2000;
        (r, w') = fetch_scryfall_card_cached w ex_key 12
    in fresh_payload w ex_key 12 = None \<and>
       remote w (card_url (set_code ex_key) (collector_number ex_key)) = Inr ex_card \<and>
       r = Inl AttributeError \<and> requests w' = requests w \<and> files w' = files w) \<and>
   (let w = ex_world (Some (Decoded (JObj [(fetched_key, JInt float_limit)]))) 2000;
        (r, w') = fetch_scryfall_card_cached w ex_key 12
    in fresh_payload w ex_key 12 = None \<and>
       remote w (card_url (set_code ex_key) (collector_number ex_key)) = Inr ex_card \<and>
       r = Inl OverflowError \<and> requests w' = requests w \<and> files w' = files w)"
proof -
  let ?w1 = "ex_world (Some (Decoded (JArr []))) 2000"
  let ?w2 = "ex_world (Some (Decoded (JObj [(fetched_key, JInt float_limit)]))) 2000"
  have f1: "files ?w1 (cache_filename ex_key) = Some (Decoded (JArr []))"
    and f2: "files ?w2 (cache_filename ex_key) = Some (Decoded (JObj [(fetched_key, JInt float_limit)]))"
    by (simp_all add: ex_world_def)
  have g1: "cache_get ?w1 ex_key 12 = (Inl AttributeError, ?w1)"
    by (rule cache_get_non_object[OF f1]) (simp add: is_object_def)
  have g2: "cache_get ?w2 ex_key 12 = (Inl OverflowError, ?w2\<lparr>ticks := Suc (ticks ?w2)\<rparr>)"
    by (rule cache_get_stamp_overflow[OF f2 _ abs_ge_self]) (simp add: dict_get_def)
  have n1: "fresh_payload ?w1 ex_key 12 = None"
    by (simp add: fresh_payload_def f1)
  have ov: "float_of_number (JInt float_limit) = Inl OverflowError"
    using abs_ge_self[of float_limit] by (simp add: float_of_number_def float_of_int_def)
  have n2: "fresh_payload ?w2 ex_key 12 = None"
    by (simp add: fresh_payload_def f2 stamp_of_def dict_get_def ov)
  have rem: "remote (ex_world rec t) (card_url (set_code ex_key) (collector_number ex_key)) = Inr ex_card"
    for rec t
    by (simp add: ex_world_def)
  show ?thesis
    by (simp add: Let_def fetch_scryfall_card_cached_def g1 g2 n1 n2 rem)
qed

text \<open>
  C9. A record that cannot be read or decoded is read as no record: \<open>cache_get\<close> answers
  absent and raises nothing, and the resolve does what it does with no record at all, one
  request whose payload it returns and writes over the record; the only error it can end
  in is that of the request.
\<close>

theorem corrupt_record_treated_as_absent:
  assumes "files w (cache_filename key) = Some Undecodable"
  shows "let w0 = without_record w key;
             url = card_url (set_code key) (collector_number key);
             (r, w') = fetch_scryfall_card_cached w key ttl;
             (r0, w0') = fetch_scryfall_card_cached w0 key ttl
         in cache_get w key ttl = (Inr None, w) \<and>
            cache_get w0 key ttl = (Inr None, w0) \<and>
            r0 = r \<and> requests w' = requests w @ [url] \<and>
            (case remote w url of
               Inl e \<Rightarrow> r = Inl e
             | Inr crd \<Rightarrow>
                 r = Inr (JObj crd, ascii ''cache_miss_fetched'') \<and> w0' = w' \<and>
                 files w' (cache_filename key) = Some (Decoded (stamped (clock w (ticks w)) crd)))"
  using assms
  by (auto simp add: without_record_def fetch_scryfall_card_cached_def cache_get_def
      fetch_scryfall_card_def cache_set_def time_time_def stamped_def Let_def split: sum.splits)

theorem corrupt_record_treated_as_absent_witness:
  "(let w = ex_world (Some Undecodable) 2000;
        (r, w') = fetch_scryfall_card_cached w ex_key 12
    in files w (cache_filename ex_key) = Some Undecodable \<and>
       cache_get w ex_key 12 = (Inr None, w) \<and>
       r = Inr (JObj ex_card, ascii ''cache_miss_fetched'') \<and>
       requests w' = [card_url (ascii ''znr'') (ascii ''12'')] \<and>
       files w' (cache_filename ex_key) = Some (Decoded (stamped 2000 ex_card)))"
proof -
  let ?w = "ex_world (Some Undecodable) 2000"
  have c: "files ?w (cache_filename ex_key) = Some Undecodable"
    by (simp add: ex_world_def)
  have rem: "remote ?w (card_url (ascii ''znr'') (ascii ''12'')) = Inr ex_card"
      "requests ?w = []" "clock ?w (ticks ?w) = 2000"
      "card_url (set_code ex_key) (collector_number ex_key) = card_url (ascii ''znr'') (ascii ''12'')"
    by (simp_all add: ex_world_def ex_key_def)
  have inst: "cache_get ?w ex_key 12 = (Inr None, ?w) \<and>
      requests (snd (fetch_scryfall_card_cached ?w ex_key 12)) = requests ?w @ [card_url (ascii ''znr'') (ascii ''12'')] \<and>
      fst (fetch_scryfall_card_cached ?w ex_key 12) = Inr (JObj ex_card, ascii ''cache_miss_fetched'') \<and>
      files (snd (fetch_scryfall_card_cached ?w ex_key 12)) (cache_filename ex_key)
        = Some (Decoded (stamped (clock ?w (ticks ?w)) ex_card))"
    using corrupt_record_treated_as_absent[OF c, of 12]
    unfolding Let_def split_def rem by simp
  from inst c rem show ?thesis
    by (simp add: split_def Let_def)
qed



section \<open>The snapshot table\<close>

lemma rows_with_key_insert_or_replace:
  "filter (\<lambda>r. primary_key r = primary_key row) (insert_or_replace row t) = [row]"
  by (simp add: insert_or_replace_def filter_empty_conv)

lemma upsert_snapshot_Inr:
  assumes "upsert_snapshot aff c d crd sc cn fin price = Inr c'"
  shows "\<exists>t args row. c = Some t \<and> snapshot_args crd = Inr args \<and>
           snapshot_values aff d args sc cn fin price = Inr row \<and>
           c' = Some (insert_or_replace row t)"
  using assms
  by (auto simp add: upsert_snapshot_def bind_err_def split: sum.splits option.splits)

lemma snapshot_values_fields:
  assumes "snapshot_values aff d args sc cn fin price = Inr row"
  shows "snapshot_date row = d \<and> s_finish row = fin \<and> s_set_code row = sc \<and>
         s_collector_number row = cn \<and> usd row = price \<and>
         bind_text aff (fst args) = Inr (Some (scryfall_id row))"
  using assms
  by (auto simp add: snapshot_values_def bind_err_def split: sum.splits option.splits prod.splits)

lemma distinct_keys_insert_or_replace:
  "distinct (map primary_key t) \<Longrightarrow> distinct (map primary_key (insert_or_replace row t))"
  by (auto simp add: insert_or_replace_def distinct_map_filter)

text \<open>
  C2. Two writes of a snapshot row under one date, one item id and one finish, the second
  with any other fields, leave exactly one row under that key, the row of the second write;
  the table does not grow, and keys that were distinct stay distinct.
\<close>

theorem upsert_snapshot_overwrites:
  assumes first: "upsert_snapshot aff c d c1 sc1 cn1 fin u1 = Inr ca"
    and second: "upsert_snapshot aff ca d c2 sc2 cn2 fin u2 = Inr cb"
    and same_id: "py_get c1 (ascii ''id'') = py_get c2 (ascii ''id'')"
  shows "\<exists>args row iid.
           snapshot_args c2 = Inr args \<and>
           snapshot_values aff d args sc2 cn2 fin u2 = Inr row \<and>
           s_set_code row = sc2 \<and> s_collector_number row = cn2 \<and> usd row = u2 \<and>
           primary_key row = (d, iid, fin) \<and>
           length (rows_with_key ca (d, iid, fin)) = 1 \<and>
           rows_with_key cb (d, iid, fin) = [row] \<and>
           length (table_rows cb) = length (table_rows ca) \<and>
           (distinct (map primary_key (table_rows c))
              \<longrightarrow> distinct (map primary_key (table_rows cb)))"
proof -
  from upsert_snapshot_Inr[OF first] obtain t args1 row1 where
    1: "c = Some t" "snapshot_args c1 = Inr args1"
       "snapshot_values aff d args1 sc1 cn1 fin u1 = Inr row1" "ca = Some (insert_or_replace row1 t)"
    by blast
  from upsert_snapshot_Inr[OF second] 1(4) obtain args2 row2 where
    2: "snapshot_args c2 = Inr args2"
       "snapshot_values aff d args2 sc2 cn2 fin u2 = Inr row2"
       "cb = Some (insert_or_replace row2 (insert_or_replace row1 t))"
    by auto
  have ids: "fst args1 = fst args2"
    using 1(2) 2(1) same_id
    by (auto simp add: snapshot_args_def bind_err_def split: sum.splits)
  note f1 = snapshot_values_fields[OF 1(3)] and f2 = snapshot_values_fields[OF 2(2)]
  have keq: "primary_key row1 = primary_key row2"
    using f1 f2 ids by (simp add: primary_key_def)
  have k2: "primary_key row2 = (d, scryfall_id row2, fin)"
    using f2 by (simp add: primary_key_def)
  have a: "rows_with_key ca (d, scryfall_id row2, fin) = [row1]"
    using rows_with_key_insert_or_replace[of row1 t] keq k2 1(4)
    by (simp add: rows_with_key_def)
  have b: "rows_with_key cb (d, scryfall_id row2, fin) = [row2]"
    using rows_with_key_insert_or_replace[of row2 "insert_or_replace row1 t"] k2 2(3)
    by (simp add: rows_with_key_def)
  have "filter (\<lambda>r. primary_key r \<noteq> primary_key row2) (insert_or_replace row1 t)
          = filter (\<lambda>r. primary_key r \<noteq> primary_key row1) t"
    using keq by (simp add: insert_or_replace_def)
  then have len: "length (table_rows cb) = length (table_rows ca)"
    using 1(4) 2(3) by (simp add: insert_or_replace_def table_rows_def)
  have dist: "distinct (map primary_key (table_rows c))
                \<longrightarrow> distinct (map primary_key (table_rows cb))"
    using 1(1) 2(3) by (simp add: distinct_keys_insert_or_replace table_rows_def)
  from 2(1,2) f2 k2 a b len dist show ?thesis by auto
qed

lemma ex_upsert:
  "upsert_snapshot ex_aff c (ascii ''2025-01-08'')
     (JObj ((ascii ''id'', JStr (ascii ''a1'')) # ex_prices u f)) (ascii ''znr'') (ascii ''12'')
     (ascii ''nonfoil'') price
   = (case c of None \<Rightarrow> Inl DatabaseError
      | Some t \<Rightarrow> Inr (Some (insert_or_replace (ex_row (ascii ''2025-01-08'') (ascii ''nonfoil'') price) t)))"
  by (simp add: upsert_snapshot_def snapshot_args_def snapshot_values_def bind_err_def ex_prices_def
      dict_get_def py_or_def ex_row_def ascii_def fetched_key_def split: option.splits)

theorem upsert_snapshot_overwrites_witness:
  "(let c1 = JObj ((ascii ''id'', JStr (ascii ''a1'')) # ex_prices (JStr (ascii ''1.50'')) JNull);
        c2 = JObj ((ascii ''id'', JStr (ascii ''a1'')) # ex_prices JNull (JStr (ascii ''4.00'')));
        d = ascii ''2025-01-08''; fin = ascii ''nonfoil'';
        ca = Some [ex_row d fin (Some 1.5)];
        cb = Some [ex_row d fin (Some 4)]
    in upsert_snapshot ex_aff (Some []) d c1 (ascii ''znr'') (ascii ''12'') fin (Some 1.5) = Inr ca \<and>
       upsert_snapshot ex_aff ca d c2 (ascii ''znr'') (ascii ''12'') fin (Some 4) = Inr cb \<and>
       py_get c1 (ascii ''id'') = py_get c2 (ascii ''id'') \<and>
       rows_with_key cb (d, ascii ''a1'', fin) = [ex_row d fin (Some 4)] \<and>
       length (table_rows cb) = length (table_rows ca))"
proof -
  let ?c1 = "JObj ((ascii ''id'', JStr (ascii ''a1'')) # ex_prices (JStr (ascii ''1.50'')) JNull)"
  let ?c2 = "JObj ((ascii ''id'', JStr (ascii ''a1'')) # ex_prices JNull (JStr (ascii ''4.00'')))"
  let ?d = "ascii ''2025-01-08''" and ?fin = "ascii ''nonfoil''"
  let ?ca = "Some [ex_row ?d ?fin (Some 1.5)]"
  let ?cb = "Some [ex_row ?d ?fin (Some 4)]"
  have 1: "upsert_snapshot ex_aff (Some []) ?d ?c1 (ascii ''znr'') (ascii ''12'') ?fin (Some 1.5) = Inr ?ca"
    by (simp add: ex_upsert insert_or_replace_def)
  have 2: "upsert_snapshot ex_aff ?ca ?d ?c2 (ascii ''znr'') (ascii ''12'') ?fin (Some 4) = Inr ?cb"
    by (simp add: ex_upsert insert_or_replace_def primary_key_def ex_row_def)
  have 3: "py_get ?c1 (ascii ''id'') = py_get ?c2 (ascii ''id'')"
    by (simp add: dict_get_def)
  from upsert_snapshot_overwrites[OF 1 2 3]
  obtain row iid where r: "primary_key row = (?d, iid, ?fin)" "rows_with_key ?cb (?d, iid, ?fin) = [row]"
      "length (table_rows ?cb) = length (table_rows ?ca)"
    by blast
  from r(2) have "row = ex_row ?d ?fin (Some 4)"
    by (simp add: rows_with_key_def split: if_splits)
  with r(1) have "iid = ascii ''a1''"
    by (simp add: primary_key_def ex_row_def)
  with r \<open>row = ex_row ?d ?fin (Some 4)\<close> 1 2 3 show ?thesis
    by (simp add: Let_def)
qed

section \<open>Type buckets\<close>

lemma set_split_first: "set (split_first sep s) \<subseteq> set s"
  by (induction s) auto

lemma strip_whitespace:
  assumes "\<forall>c \<in> set s. isspace c"
  shows "strip s = []"
proof -
  from assms have d: "dropWhile isspace s = []" by (induction s) auto
  show ?thesis unfolding strip_def d by simp
qed

lemma whitespace_only_type_buckets:
  assumes "\<forall>c \<in> set s. isspace c"
  shows "type_buckets s = [Unknown]" and "dashboard_type_buckets s = [Unknown]"
proof -
  have "\<And>sep. strip (split_first sep s) = []"
    using assms set_split_first by (intro strip_whitespace) blast
  then show "type_buckets s = [Unknown]" and "dashboard_type_buckets s = [Unknown]"
    by (simp_all add: type_buckets_def dashboard_type_buckets_def split_ws_def)
qed

lemma type_buckets_golem:
  "type_buckets golem_type_line = [ascii ''Artifact'', ascii ''Creature'']"
  by (simp add: type_buckets_def golem_type_line_def ascii_def em_dash_def strip_def isspace_def
      split_ws_def Let_def)

text \<open>
  C6. In \<open>get_dashboard_data\<close> the separator is not the em dash: the type text
  \<open>Artifact Creature\<close>, em dash, \<open>Golem\<close> is cut nowhere, its tokens are \<open>Artifact\<close>,
  \<open>Creature\<close>, the em dash and \<open>Golem\<close>, and a position of that type is counted in each of
  the four groups, where \<open>type_buckets\<close> of \<open>validate_csv_to_prices.py\<close> gives
  \<open>Artifact\<close> and \<open>Creature\<close>.
\<close>

theorem dashboard_type_buckets_golem:
  "dashboard_type_buckets golem_type_line
     = [ascii ''Artifact'', ascii ''Creature'', em_dash, ascii ''Golem''] \<and>
   map fst (explode_types [h\<lparr>h_type_line := Some golem_type_line\<rparr>])
     = [Some (ascii ''Artifact''), Some (ascii ''Creature''), Some em_dash, Some (ascii ''Golem'')] \<and>
   dashboard_type_buckets golem_type_line \<noteq> type_buckets golem_type_line"
proof -
  have d: "dashboard_type_buckets golem_type_line
     = [ascii ''Artifact'', ascii ''Creature'', em_dash, ascii ''Golem'']"
    by (simp add: dashboard_type_buckets_def dashboard_separator_def golem_type_line_def ascii_def
        em_dash_def strip_def isspace_def split_ws_def Let_def)
  then show ?thesis
    by (simp add: explode_types_def type_buckets_golem)
qed

section \<open>Top holdings\<close>

lemma stable_argsort_sorts: "argsort_sorts stable_argsort"
proof -
  have "orders_keys stable_argsort xs a" for xs a
  proof (cases a)
    case True
    let ?f = "\<lambda>i. fin_key (map Fin xs ! i)"
    let ?ys = "sort_key ?f [0..<length xs]"
    have srt: "sorted_wrt (\<lambda>i j. ?f i \<le> ?f j) ?ys"
      using sorted_sort_key[of ?f "[0..<length xs]"] by (simp only: sorted_map)
    have "sorted_wrt (\<lambda>i j. xs ! i \<le> xs ! j) ?ys"
      by (rule sorted_wrt_mono_rel[OF _ srt]) (simp add: fin_key_def)
    with True show ?thesis by (simp add: stable_argsort_def orders_keys_def)
  next
    case False
    let ?f = "\<lambda>i. - fin_key (map Fin xs ! i)"
    let ?ys = "sort_key ?f [0..<length xs]"
    have srt: "sorted_wrt (\<lambda>i j. ?f i \<le> ?f j) ?ys"
      using sorted_sort_key[of ?f "[0..<length xs]"] by (simp only: sorted_map)
    have "sorted_wrt (\<lambda>i j. xs ! j \<le> xs ! i) ?ys"
      by (rule sorted_wrt_mono_rel[OF _ srt]) (simp add: fin_key_def)
    with False show ?thesis by (simp add: stable_argsort_def orders_keys_def)
  qed
  then show ?thesis unfolding argsort_sorts_def by blast
qed

lemma sort_values_sorted:
  assumes ok: "orders_keys (argsort env) (map val rows) ascending"
    and keys: "\<forall>r \<in> set rows. key r = Fin (val r)"
  shows "mset (sort_values env key ascending rows) = mset rows \<and>
         sorted_wrt (\<lambda>a b. if ascending then val a \<le> val b else val b \<le> val a)
           (sort_values env key ascending rows)"
proof -
  define xs where "xs = map val rows"
  define ix where "ix = argsort env (map Fin xs) ascending"
  have len: "length xs = length rows" by (simp add: xs_def)
  have k: "map key rows = map Fin xs" using keys by (simp add: xs_def)
  from ok have ok': "orders_keys (argsort env) xs ascending"
    by (simp only: xs_def)
  have m: "mset ix = mset [0..<length rows]"
    using ok' unfolding orders_keys_def ix_def len by (rule conjunct1)
  have s: "sorted_wrt (\<lambda>i j. if ascending then xs ! i \<le> xs ! j else xs ! j \<le> xs ! i) ix"
    using ok' unfolding orders_keys_def ix_def by (rule conjunct2)
  have "set ix = set [0..<length rows]"
    using m by (rule mset_eq_setD)
  then have bound: "i < length rows" if "i \<in> set ix" for i
    using that by simp
  then have "filter (\<lambda>i. i < length rows) ix = ix"
    by (simp add: filter_id_conv)
  then have sv: "sort_values env key ascending rows = map (\<lambda>i. rows ! i) ix"
    by (simp add: sort_values_def k ix_def)
  have "mset (map (\<lambda>i. rows ! i) ix) = image_mset (\<lambda>i. rows ! i) (mset ix)"
    by simp
  also have "\<dots> = mset (map (\<lambda>i. rows ! i) [0..<length rows])"
    by (simp only: m mset_map)
  also have "\<dots> = mset rows" by (simp only: map_nth)
  finally have perm: "mset (sort_values env key ascending rows) = mset rows"
    by (simp only: sv)
  have "sorted_wrt (\<lambda>i j. if ascending then val (rows ! i) \<le> val (rows ! j)
                            else val (rows ! j) \<le> val (rows ! i)) ix"
  proof (rule sorted_wrt_mono_rel[OF _ s])
    fix i j assume i: "i \<in> set ix" and j: "j \<in> set ix"
      and le: "if ascending then xs ! i \<le> xs ! j else xs ! j \<le> xs ! i"
    from bound[OF i] bound[OF j] have "xs ! i = val (rows ! i)" "xs ! j = val (rows ! j)"
      by (simp_all add: xs_def)
    with le show "if ascending then val (rows ! i) \<le> val (rows ! j)
                  else val (rows ! j) \<le> val (rows ! i)"
      by (cases ascending) simp_all
  qed
  then have "sorted_wrt (\<lambda>a b. if ascending then val a \<le> val b else val b \<le> val a)
           (sort_values env key ascending rows)"
    by (simp only: sv sorted_wrt_map)
  with perm show ?thesis by blast
qed

lemma head_of_sorted_is_top_n:
  assumes ok: "orders_keys (argsort env) (map val rows) False"
    and keys: "\<forall>r \<in> set rows. key r = Fin (val r)"
    and n: "0 \<le> n"
  shows "is_top_n val (nat n) rows (df_head n (sort_values env key False rows))"
proof -
  define S where "S = sort_values env key False rows"
  define k where "k = nat n"
  have top: "df_head n (sort_values env key False rows) = take k S"
    using n by (simp add: df_head_def S_def k_def)
  from sort_values_sorted[OF ok keys]
  have perm: "mset S = mset rows" and srt: "sorted_wrt (\<lambda>a b. val b \<le> val a) S"
    by (simp_all add: S_def)
  have split: "mset S = mset (take k S) + mset (drop k S)"
    by (metis append_take_drop_id mset_append)
  have sub: "mset (take k S) \<subseteq># mset rows"
    using split perm by (metis mset_subset_eq_add_left)
  have "length S = length rows"
    using perm by (rule mset_eq_length)
  then have len: "length (take k S) = min k (length rows)"
    by simp
  have srt_top: "sorted_wrt (\<lambda>a b. val b \<le> val a) (take k S)"
    using srt by (rule sorted_wrt_take)
  have rest: "mset rows - mset (take k S) = mset (drop k S)"
    using split perm by simp
  have "sorted_wrt (\<lambda>a b. val b \<le> val a) (take k S @ drop k S)"
    using srt by simp
  then have cut: "\<forall>a \<in> set (take k S). \<forall>b \<in> set (drop k S). val b \<le> val a"
    unfolding sorted_wrt_append by blast
  have "sorted (rev (map val S))"
    using srt by (simp add: sorted_wrt_rev sorted_wrt_map)
  moreover have "mset (rev (map val S)) = mset (map val rows)"
    using perm by (metis mset_map mset_rev)
  ultimately have "sort (map val rows) = rev (map val S)"
    by (rule properties_for_sort[rotated])
  then have vals: "map val (take k S) = take k (rev (sort (map val rows)))"
    by (simp add: take_map)
  from sub len srt_top cut rest vals show ?thesis
    unfolding is_top_n_def top k_def[symmetric] by simp
qed

lemma priced_keys:
  assumes "valued rows"
  shows "\<forall>r \<in> set (priced rows). value_key r = Fin (pv r)"
  using assms
  by (auto simp add: valued_def priced_def value_key_def pv_def times_qty_def)

lemma is_top_n_Nil: "is_top_n val k [] []"
  by (simp add: is_top_n_def)

text \<open>
  C8, in the form that holds. Where the indexer of the default sort, which promises
  nothing about equal keys, puts the position values in descending order, the Top-N for N
  at least 0, of \<open>get_dashboard_data\<close> as of \<open>movers.main\<close>, is made of priced positions,
  as many as N allows, in descending order of value, no position left out is worth more
  than one taken, and the values shown are the N greatest; which of several positions of
  equal value comes first is not determined.
\<close>

theorem top_n_sorted_prefix:
  assumes dash: "orders_keys (argsort env) (map pv (priced rows)) False"
    and v: "valued rows"
    and rep: "orders_keys (argsort env) (map snd (priced_holdings owned_rows)) False"
    and n: "0 \<le> n"
  shows "is_top_n pv (nat n) (priced rows) (top_holdings_of env n rows) \<and>
         is_top_n snd (nat n) (priced_holdings owned_rows)
           (report_top_holdings env n (priced_holdings owned_rows))"
proof -
  have a: "is_top_n pv (nat n) (priced rows) (top_holdings_of env n rows)"
    using head_of_sorted_is_top_n[OF dash priced_keys[OF v] n]
    by (simp add: top_holdings_of_def priced_def)
  have b: "is_top_n snd (nat n) (priced_holdings owned_rows)
             (report_top_holdings env n (priced_holdings owned_rows))"
  proof (cases "priced_holdings owned_rows = []")
    case True
    then show ?thesis by (simp add: report_top_holdings_def is_top_n_Nil)
  next
    case False
    have "\<forall>r \<in> set (priced_holdings owned_rows). (\<lambda>x. Fin (snd x)) r = Fin (snd r)"
      by simp
    from head_of_sorted_is_top_n[OF rep this n] False show ?thesis
      by (simp add: report_top_holdings_def)
  qed
  from a b show ?thesis by blast
qed

lemma simd_indexer_ties:
  "nargsort simd_argsort [Fin 1, Fin 1, Fin 2, Fin 2] False = [3, 2, 1, 0]"
  by code_simp

lemma simd_env_argsort: "argsort simd_env = nargsort simd_argsort"
  by (simp add: simd_env_def ex_env_def)

lemma pv_ex_holding: "pv (ex_holding cn price n) = price * of_int n"
  by (simp add: pv_def ex_holding_def)

lemma tie_rows_priced: "priced tie_rows = tie_rows"
  by (simp add: priced_def tie_rows_def ex_holding_def)

lemma tie_rows_keys: "map value_key tie_rows = [Fin 1, Fin 1, Fin 2, Fin 2]"
  by (simp add: tie_rows_def value_key_def ex_holding_def)

lemma ties_ordered: "orders_keys (nargsort simd_argsort) [1, 1, 2, 2] False"
proof -
  have keys: "map Fin [1, 1, 2, 2] = [Fin 1, Fin 1, Fin 2, Fin 2]"
    by simp
  have len: "length [1, 1, 2, 2 :: real] = 4"
    by simp
  have "[3, 2, 1, 0] = rev [0..<4]"
    by (simp add: upt_rec)
  then have m: "mset [3, 2, 1, 0] = mset [0..<4]"
    by (simp only: mset_rev)
  have s: "sorted_wrt (\<lambda>i j. if False then [1, 1, 2, 2 :: real] ! i \<le> [1, 1, 2, 2] ! j
                             else [1, 1, 2, 2 :: real] ! j \<le> [1, 1, 2, 2] ! i) [3, 2, 1, 0]"
    by simp
  show ?thesis
    unfolding orders_keys_def keys simd_indexer_ties len
    using m s by (rule conjI)
qed

lemma tie_rows_orders: "orders_keys (argsort simd_env) (map pv (priced tie_rows)) False"
proof -
  have "map pv tie_rows = [1, 1, 2, 2]"
    by (simp add: tie_rows_def pv_ex_holding)
  then show ?thesis
    by (simp add: tie_rows_priced simd_env_argsort ties_ordered)
qed

lemma tie_rows_valued: "valued tie_rows"
  by (simp add: valued_def tie_rows_def ex_holding_def times_qty_def)

lemma tie_top_holdings:
  "top_holdings_of simd_env 2 tie_rows = [ex_holding [52] 2 1, ex_holding [51] 2 1]"
proof -
  have "sort_values simd_env value_key False tie_rows
          = [ex_holding [52] 2 1, ex_holding [51] 2 1, ex_holding [50] 1 1, ex_holding [49] 1 1]"
    unfolding sort_values_def tie_rows_keys simd_env_argsort simd_indexer_ties
    by (simp add: tie_rows_def)
  then show ?thesis
    using tie_rows_priced by (simp add: top_holdings_of_def priced_def df_head_def)
qed

lemma tie_stable_top_n:
  "stable_top_n 2 tie_rows = [ex_holding [51] 2 1, ex_holding [52] 2 1]"
  unfolding stable_top_n_def tie_rows_priced
  by (simp add: tie_rows_def pv_ex_holding)

lemma tie_owned_holdings:
  "priced_holdings tie_owned_rows
     = [(ex_owned_price [49] 1, 1), (ex_owned_price [50] 1, 1), (ex_owned_price [51] 2, 2),
        (ex_owned_price [52] 2, 2)]"
  by (simp add: priced_holdings_def tie_owned_rows_def ex_owned_price_def)

lemma tie_owned_orders:
  "orders_keys (argsort simd_env) (map snd (priced_holdings tie_owned_rows)) False"
  by (simp add: tie_owned_holdings simd_env_argsort ties_ordered)

lemma tie_report_top_holdings:
  "report_top_holdings simd_env 2 (priced_holdings tie_owned_rows)
     = [(ex_owned_price [52] 2, 2), (ex_owned_price [51] 2, 2)]"
proof -
  have "sort_values simd_env (\<lambda>x. Fin (snd x)) False (priced_holdings tie_owned_rows)
          = [(ex_owned_price [52] 2, 2), (ex_owned_price [51] 2, 2), (ex_owned_price [50] 1, 1),
             (ex_owned_price [49] 1, 1)]"
    unfolding sort_values_def tie_owned_holdings simd_env_argsort
    by (simp add: simd_indexer_ties)
  then show ?thesis
    by (simp add: report_top_holdings_def df_head_def tie_owned_holdings)
qed

lemma tie_stable_report_top_n:
  "stable_report_top_n 2 (priced_holdings tie_owned_rows)
     = [(ex_owned_price [51] 2, 2), (ex_owned_price [52] 2, 2)]"
  by (simp add: stable_report_top_n_def tie_owned_holdings)

theorem top_n_sorted_prefix_witness:
  "orders_keys (argsort simd_env) (map pv (priced tie_rows)) False \<and> valued tie_rows \<and>
   orders_keys (argsort simd_env) (map snd (priced_holdings tie_owned_rows)) False \<and>
   (0::int) \<le> 2 \<and>
   is_top_n pv 2 (priced tie_rows) [ex_holding [52] 2 1, ex_holding [51] 2 1] \<and>
   is_top_n snd 2 (priced_holdings tie_owned_rows)
     [(ex_owned_price [52] 2, 2), (ex_owned_price [51] 2, 2)]"
proof -
  have n: "(0::int) \<le> 2" by simp
  from top_n_sorted_prefix[OF tie_rows_orders tie_rows_valued tie_owned_orders n]
  have "is_top_n pv 2 (priced tie_rows) [ex_holding [52] 2 1, ex_holding [51] 2 1] \<and>
        is_top_n snd 2 (priced_holdings tie_owned_rows)
          [(ex_owned_price [52] 2, 2), (ex_owned_price [51] 2, 2)]"
    by (simp add: tie_top_holdings tie_report_top_holdings)
  with tie_rows_orders tie_rows_valued tie_owned_orders show ?thesis by simp
qed

text \<open>
  C8 does not hold with a stable sort in it: of four positions worth 1, 1, 2 and 2 the
  Top-2 is the fourth and then the third, in \<open>get_dashboard_data\<close> as in \<open>movers.main\<close>,
  where a stable sort gives the third and then the fourth.
\<close>

theorem top_n_ties_reversed:
  "top_holdings_of simd_env 2 tie_rows = [ex_holding [52] 2 1, ex_holding [51] 2 1] \<and>
   stable_top_n 2 tie_rows = [ex_holding [51] 2 1, ex_holding [52] 2 1] \<and>
   top_holdings_of simd_env 2 tie_rows \<noteq> stable_top_n 2 tie_rows \<and>
   report_top_holdings simd_env 2 (priced_holdings tie_owned_rows)
     = [(ex_owned_price [52] 2, 2), (ex_owned_price [51] 2, 2)] \<and>
   stable_report_top_n 2 (priced_holdings tie_owned_rows)
     = [(ex_owned_price [51] 2, 2), (ex_owned_price [52] 2, 2)] \<and>
   report_top_holdings simd_env 2 (priced_holdings tie_owned_rows)
     \<noteq> stable_report_top_n 2 (priced_holdings tie_owned_rows)"
proof -
  have "ex_holding [52] 2 1 \<noteq> ex_holding [51] 2 1"
    by (simp add: ex_holding_def)
  moreover have "ex_owned_price [52] 2 \<noteq> ex_owned_price [51] 2"
    by (simp add: ex_owned_price_def)
  ultimately show ?thesis
    by (simp add: tie_top_holdings tie_stable_top_n tie_report_top_holdings
        tie_stable_report_top_n)
qed

section \<open>Movers\<close>

lemma dashboard_movers_delta_pct:
  assumes "m \<in> set (dashboard_movers rows baseline_rows)"
  shows "h_usd (m_holding m) = Some (m_usd_baseline m + delta_usd m) \<and>
         pct_change m = (if m_usd_baseline m = 0 then None
                         else Some (delta_usd m / m_usd_baseline m * 100))"
  using assms
  by (auto simp add: dashboard_movers_def split: option.splits)

lemma dashboard_movers_examples:
  "map (\<lambda>m. (delta_usd m, pct_change m))
     (dashboard_movers [ex_holding [49] 12.5 1]
        [\<lparr>b_scryfall_id = [49], b_finish = ascii ''nonfoil'', usd_baseline = Some 10\<rparr>])
     = [(2.5, Some 25)]"
  "map (\<lambda>m. (delta_usd m, pct_change m))
     (dashboard_movers [ex_holding [49] 3 1]
        [\<lparr>b_scryfall_id = [49], b_finish = ascii ''nonfoil'', usd_baseline = Some 0\<rparr>])
     = [(3, None)]"
  by (simp_all add: dashboard_movers_def ex_holding_def)

lemma report_movers_zero_baseline:
  assumes "m \<in> set (report_movers rows baseline_rows)" and "rm_usd_baseline m = 0"
  shows "rm_pct_change m = (if rm_delta_usd m > 0 then PosInf
                            else if rm_delta_usd m < 0 then NegInf else NaN)"
  using assms
  by (auto simp add: report_movers_def f64_div_def split: option.splits)

lemma ex_dates:
  "ascii ''2025-01-08'' \<le> ascii ''2025-01-08''"
  "\<not> ascii ''2025-01-15'' \<le> ascii ''2025-01-08''"
  "max (ascii ''2025-01-08'') (ascii ''2025-01-15'') = ascii ''2025-01-15''"
  "max (ascii ''2025-01-15'') (ascii ''2025-01-08'') = ascii ''2025-01-15''"
  "ascii ''2025-01-08'' \<noteq> ascii ''2025-01-15''"
  "ascii ''2025-01-15'' \<noteq> ascii ''2025-01-08''"
  "ascii ''2025-01-15'' \<noteq> []" "ascii ''2025-01-08'' \<noteq> []"
  by (simp_all add: ascii_def max_def)

lemma ex_latest:
  "latest_snapshot_date (ex_store [(ascii ''2025-01-08'', a), (ascii ''2025-01-15'', b)])
     = Inr (ascii ''2025-01-15'')"
  "latest_snapshot_date (ex_store [(ascii ''2025-01-15'', b)]) = Inr (ascii ''2025-01-15'')"
  by (simp_all add: latest_snapshot_date_def ex_store_def sql_max_def ex_row_def ex_dates)

lemma ex_target:
  "target_date (ex_env f) (ascii ''2025-01-15'') 7 = Inr (ascii ''2025-01-08'')"
  by (simp add: target_date_def ex_env_def ex_fromisoformat_def ex_isoformat_def ex_dates)

lemma ex_baseline:
  "snapshot_on_or_before (ex_store [(ascii ''2025-01-08'', a), (ascii ''2025-01-15'', b)])
     (ascii ''2025-01-08'') = Inr (Some (ascii ''2025-01-08''))"
  "snapshot_on_or_before (ex_store [(ascii ''2025-01-15'', b)]) (ascii ''2025-01-08'') = Inr None"
  by (simp_all add: snapshot_on_or_before_def ex_store_def sql_max_def ex_row_def ex_dates)


lemma ex_rows:
  "select_rows_for_date (ex_store [(ascii ''2025-01-08'', a), (ascii ''2025-01-15'', b)])
     (ascii ''2025-01-15'') = Inr [ex_row (ascii ''2025-01-15'') (ascii ''nonfoil'') (Some b)]"
  "select_baseline_rows (ex_store [(ascii ''2025-01-08'', a), (ascii ''2025-01-15'', b)])
     (ascii ''2025-01-08'')
     = Inr [\<lparr>b_scryfall_id = ascii ''a1'', b_finish = ascii ''nonfoil'', usd_baseline = Some a\<rparr>]"
  by (simp_all add: select_rows_for_date_def select_baseline_rows_def ex_store_def ex_row_def ex_dates)

lemma ex_merge:
  "merge_owned_prices ex_owned [ex_row d (ascii ''nonfoil'') p]
     = [\<lparr>o_set_code = ascii ''znr'', o_collector_number = ascii ''12'',
         o_finish = ascii ''nonfoil'', o_qty = 1, o_scryfall_id = ascii ''a1'',
         o_name = Some (ascii ''Opt''), o_usd = p\<rparr>]"
  by (simp add: merge_owned_prices_def ex_owned_def ex_row_def)

text \<open>
  C5. In \<open>scripts/movers.py\<close> the percent is the quotient of two float columns with no
  test of the divisor: for the baseline 0.00 and the current price 3.00 the delta is 3.00
  and the percent is positive infinity, not null, and the row leads the gainers; for the
  same prices \<open>get_dashboard_data\<close> gives the delta 3.00 and a null percent.
\<close>

theorem movers_main_zero_baseline:
  "(case movers_main (ex_env stable_argsort)
           (ex_store [(ascii ''2025-01-08'', 0), (ascii ''2025-01-15'', 3)])
           ex_owned 7 5 (ascii ''abs'') of
      Inl e \<Rightarrow> False
    | Inr rep \<Rightarrow>
        map (\<lambda>m. (rm_usd_baseline m, o_usd (rm_row m), rm_delta_usd m, rm_pct_change m))
          (r_gainers rep) = [(0, Some 3, 3, PosInf)])"
proof -
  let ?c = "ex_store [(ascii ''2025-01-08'', 0), (ascii ''2025-01-15'', 3)]"
  have mv: "report_movers (merge_owned_prices ex_owned
               [ex_row (ascii ''2025-01-15'') (ascii ''nonfoil'') (Some 3)])
             [\<lparr>b_scryfall_id = ascii ''a1'', b_finish = ascii ''nonfoil'', usd_baseline = Some 0\<rparr>]
          = [\<lparr>rm_row = \<lparr>o_set_code = ascii ''znr'', o_collector_number = ascii ''12'',
                 o_finish = ascii ''nonfoil'', o_qty = 1, o_scryfall_id = ascii ''a1'',
                 o_name = Some (ascii ''Opt''), o_usd = Some 3\<rparr>,
               rm_usd_baseline = 0, rm_delta_usd = 3, rm_pct_change = PosInf\<rparr>]"
    unfolding ex_merge by (simp add: report_movers_def f64_div_def)
  have env: "argsort (ex_env stable_argsort) = stable_argsort" by (simp add: ex_env_def)
  show ?thesis
    by (simp add: movers_main_def ex_latest ex_target ex_baseline ex_rows bind_err_def
        mv Let_def sort_values_def df_head_def env stable_argsort_def fin_key_def)
qed

section \<open>The dashboard with little or no history\<close>

lemma load_history_without_snapshots:
  "load_history env None days = (None, None, [])"
  "load_history env (Some []) days = (None, None, [])"
  by (simp_all add: load_history_def latest_snapshot_date_def sql_max_def bind_err_def)

lemma load_history_without_baseline:
  assumes "latest_snapshot_date c = Inr latest"
    and "target_date env latest days = Inr target"
    and "snapshot_on_or_before c target = Inr None"
  shows "load_history env c days = (Some latest, None, [])"
  using assms by (simp add: load_history_def bind_err_def)

lemma latest_snapshot_date_table:
  "latest_snapshot_date c = Inr latest \<Longrightarrow> \<exists>t. c = Some t"
  by (cases c) (simp_all add: latest_snapshot_date_def)

lemma snapshot_mode_without_snapshots:
  "fst (get_dashboard_data env None w owned days top_n False) = Inl NoSnapshotsForSnapshotMode"
  "fst (get_dashboard_data env (Some []) w owned days top_n False) = Inl NoSnapshotsForSnapshotMode"
  by (simp_all add: get_dashboard_data_def load_history_without_snapshots)

lemma live_mode_without_table:
  assumes "fst (compute_live_owned env w owned CACHE_TTL_HOURS) = Inr rows"
  shows "fst (get_dashboard_data env None w owned days top_n True) = Inl DatabaseError"
  using assms
  by (cases "compute_live_owned env w owned CACHE_TTL_HOURS")
     (simp add: get_dashboard_data_def load_history_without_snapshots
        get_portfolio_timeseries_def bind_err_def)

lemma concat_map_Nil: "concat (map (\<lambda>p. []) xs) = []"
  by (induction xs) simp_all

lemma timeseries_empty_table: "get_portfolio_timeseries (Some []) owned = Inr []"
  by (simp add: get_portfolio_timeseries_def concat_map_Nil)

lemma live_mode_empty_table:
  assumes "fst (compute_live_owned env w owned CACHE_TTL_HOURS) = Inr rows"
  shows "\<exists>d. fst (get_dashboard_data env (Some []) w owned days top_n True) = Inr d \<and>
           latest_owned d = rows \<and> total_value_usd d = sum_skipna (map position_value_usd rows) \<and>
           top_holdings d = top_holdings_of env top_n rows \<and>
           gainers d = [] \<and> losers d = [] \<and> portfolio_ts d = []"
  using assms
  by (cases "compute_live_owned env w owned CACHE_TTL_HOURS")
     (auto simp add: get_dashboard_data_def load_history_without_snapshots
        timeseries_empty_table bind_err_def Let_def split: sum.splits)

lemma movers_main_without_snapshots:
  "movers_main env None owned days top_n sort_mode = Inl DatabaseError"
  "movers_main env (Some []) owned days top_n sort_mode = Inl NoSnapshotsFound"
  by (simp_all add: movers_main_def latest_snapshot_date_def sql_max_def bind_err_def)

text \<open>
  C7, in the form that holds. Where the table has a latest date and no date on or before the target,
  \<open>get_dashboard_data\<close> returns empty gainers and losers and no baseline, and an error can
  only be that of the live prices; \<open>movers.main\<close> stops with the error of too little
  history, which is another error than those of a table that is empty or missing.
\<close>

theorem no_baseline_empty_movers:
  assumes l: "latest_snapshot_date c = Inr latest"
    and t: "target_date env latest days = Inr target"
    and b: "snapshot_on_or_before c target = Inr None"
  shows "(case fst (get_dashboard_data env c w owned days top_n live) of
            Inr d \<Rightarrow> gainers d = [] \<and> losers d = [] \<and> baseline_snapshot d = None \<and>
                     latest_snapshot d = latest
          | Inl e \<Rightarrow> live \<and> fst (compute_live_owned env w owned CACHE_TTL_HOURS) = Inl e) \<and>
         movers_main env c owned days top_n sort_mode = Inl NotEnoughHistory \<and>
         movers_main env (Some []) owned days top_n sort_mode = Inl NoSnapshotsFound \<and>
         movers_main env None owned days top_n sort_mode = Inl DatabaseError \<and>
         fst (get_dashboard_data env (Some []) w owned days top_n False)
           = Inl NoSnapshotsForSnapshotMode \<and>
         fst (get_dashboard_data env None w owned days top_n False)
           = Inl NoSnapshotsForSnapshotMode"
proof -
  from latest_snapshot_date_table[OF l] obtain tb where c: "c = Some tb" by blast
  have h: "load_history env c days = (Some latest, None, [])"
    by (rule load_history_without_baseline[OF l t b])
  have ts: "\<exists>x. get_portfolio_timeseries c owned = Inr x"
    by (simp add: get_portfolio_timeseries_def c Let_def)
  have rows: "\<exists>x. select_rows_for_date c latest = Inr x"
    by (simp add: select_rows_for_date_def c)
  have dash: "case fst (get_dashboard_data env c w owned days top_n live) of
            Inr d \<Rightarrow> gainers d = [] \<and> losers d = [] \<and> baseline_snapshot d = None \<and>
                     latest_snapshot d = latest
          | Inl e \<Rightarrow> live \<and> fst (compute_live_owned env w owned CACHE_TTL_HOURS) = Inl e"
  proof (cases live)
    case True
    obtain r w1 where cl: "compute_live_owned env w owned CACHE_TTL_HOURS = (r, w1)"
      by (cases "compute_live_owned env w owned CACHE_TTL_HOURS")
    from ts obtain x where x: "get_portfolio_timeseries c owned = Inr x" by blast
    show ?thesis
      using True cl x by (cases r) (simp_all add: get_dashboard_data_def h bind_err_def Let_def)
  next
    case False
    from ts obtain x where x: "get_portfolio_timeseries c owned = Inr x" by blast
    from rows obtain y where y: "select_rows_for_date c latest = Inr y" by blast
    show ?thesis
      using False x y by (simp add: get_dashboard_data_def h bind_err_def Let_def)
  qed
  have mm: "movers_main env c owned days top_n sort_mode = Inl NotEnoughHistory"
    by (simp add: movers_main_def l t b bind_err_def)
  from dash mm show ?thesis
    by (simp add: movers_main_without_snapshots snapshot_mode_without_snapshots)
qed


theorem no_baseline_empty_movers_witness:
  "latest_snapshot_date (ex_store [(ascii ''2025-01-15'', 3)]) = Inr (ascii ''2025-01-15'') \<and>
   target_date (ex_env stable_argsort) (ascii ''2025-01-15'') 7 = Inr (ascii ''2025-01-08'') \<and>
   snapshot_on_or_before (ex_store [(ascii ''2025-01-15'', 3)]) (ascii ''2025-01-08'') = Inr None \<and>
   (case fst (get_dashboard_data (ex_env stable_argsort) (ex_store [(ascii ''2025-01-15'', 3)])
                (ex_world None 2000) ex_owned 7 5 False) of
      Inr d \<Rightarrow> gainers d = [] \<and> losers d = [] \<and> baseline_snapshot d = None \<and>
               latest_snapshot d = ascii ''2025-01-15''
    | Inl e \<Rightarrow> False)"
  using no_baseline_empty_movers[OF ex_latest(2)[of 3] ex_target[of stable_argsort]
          ex_baseline(2)[of 3],
          where w = "ex_world None 2000" and owned = ex_owned and top_n = 5 and live = False]
        ex_latest(2)[of 3] ex_target[of stable_argsort] ex_baseline(2)[of 3]
  by (cases "fst (get_dashboard_data (ex_env stable_argsort) (ex_store [(ascii ''2025-01-15'', 3)])
                (ex_world None 2000) ex_owned 7 5 False)") simp_all

text \<open>
  C7 does not hold of \<open>scripts/movers.py\<close>: with one snapshot, of 2025-01-15, and a
  window of 7 days there is no baseline, and \<open>main\<close> raises an error.
\<close>

theorem movers_main_raises_without_baseline:
  "snapshot_on_or_before (ex_store [(ascii ''2025-01-15'', 3)]) (ascii ''2025-01-08'') = Inr None \<and>
   movers_main (ex_env stable_argsort) (ex_store [(ascii ''2025-01-15'', 3)]) ex_owned 7 5
     (ascii ''abs'') = Inl NotEnoughHistory"
  by (simp add: movers_main_def ex_latest ex_target ex_baseline bind_err_def)

lemma ex_resolve:
  "fst (fetch_scryfall_card_cached (ex_world None t) ex_key ttl)
     = Inr (JObj ex_card, ascii ''cache_miss_fetched'')"
  by (simp add: fetch_scryfall_card_cached_def cache_get_def fetch_scryfall_card_def ex_world_def
      Let_def)

lemma ex_fetch_unique:
  "fst (fetch_unique (ex_world None t) [ex_key] ttl) = Inr [(ex_key, JObj ex_card)]"
  using ex_resolve[of t ttl]
  by (cases "fetch_scryfall_card_cached (ex_world None t) ex_key ttl") simp

lemma ex_choose:
  "choose_unit_price_usd ex_float (JObj ex_card) (ascii ''nonfoil'') = Inr (Some 1.5, ascii ''ok'')"
  by (simp add: choose_unit_price_usd_def ex_card_def ex_prices_get bind_err_def to_float_def
      ex_float_def dict_get_def py_or_def ex_prices_def ascii_def)

lemma ex_live:
  "fst (compute_live_owned (ex_env f) (ex_world None t) ex_owned CACHE_TTL_HOURS)
     = Inr [\<lparr>h_set_code = ascii ''znr'', h_collector_number = ascii ''12'',
              h_finish = ascii ''nonfoil'', h_qty = 1, h_scryfall_id = ascii ''a1'',
              h_name = Some (ascii ''Opt''), h_rarity = Some (ascii ''unknown''),
              h_type_line = Some [], h_usd = Some 1.5, position_value_usd = Some 1.5\<rparr>]"
proof -
  have k: "map position_key ex_owned = [ex_key]"
    by (simp add: position_key_def ex_owned_def ex_key_def)
  have env: "float_of_str (ex_env f) = ex_float" "py_lower (ex_env f) = (\<lambda>s. s)"
    by (simp_all add: ex_env_def)
  let ?p = "\<lparr>p_set_code = ascii ''znr'', p_collector_number = ascii ''12'',
             p_finish = ascii ''nonfoil'', qty = 1\<rparr>"
  have key: "position_key ?p = ex_key"
    by (simp add: position_key_def ex_key_def)
  have gets: "dict_get ex_card (ascii ''name'') = JStr (ascii ''Opt'')"
    "dict_get ex_card (ascii ''id'') = JStr (ascii ''a1'')"
    "dict_get ex_card (ascii ''rarity'') = JNull"
    "dict_get ex_card (ascii ''type_line'') = JNull"
    by (simp_all add: ex_card_def ex_prices_def dict_get_def ascii_def)
  have row: "live_row (ex_env f) [(ex_key, JObj ex_card)] ?p
     = Inr \<lparr>h_set_code = ascii ''znr'', h_collector_number = ascii ''12'',
              h_finish = ascii ''nonfoil'', h_qty = 1, h_scryfall_id = ascii ''a1'',
              h_name = Some (ascii ''Opt''), h_rarity = Some (ascii ''unknown''),
              h_type_line = Some [], h_usd = Some 1.5, position_value_usd = Some 1.5\<rparr>"
    unfolding live_row_def key
    by (simp add: env ex_choose bind_err_def gets py_or_def py_str_def times_qty_def)
  have rows: "live_rows (ex_env f) [(ex_key, JObj ex_card)] ex_owned
     = Inr [\<lparr>h_set_code = ascii ''znr'', h_collector_number = ascii ''12'',
              h_finish = ascii ''nonfoil'', h_qty = 1, h_scryfall_id = ascii ''a1'',
              h_name = Some (ascii ''Opt''), h_rarity = Some (ascii ''unknown''),
              h_type_line = Some [], h_usd = Some 1.5, position_value_usd = Some 1.5\<rparr>]"
    unfolding ex_owned_def live_rows.simps row by (simp add: bind_err_def)
  show ?thesis
    using ex_fetch_unique[of t CACHE_TTL_HOURS]
    by (cases "fetch_unique (ex_world None t) [ex_key] CACHE_TTL_HOURS")
       (simp add: compute_live_owned_def k drop_duplicates_def rows)
qed

text \<open>
  C4. With a database that has no table \<open>price_snapshots\<close>, as before the first snapshot
  was ever taken, the live prices of the example position resolve, and \<open>get_dashboard_data\<close>
  in live mode still raises: the time series is read outside the \<open>try\<close> block and fails
  on the missing table. Snapshot mode raises its own error.
\<close>

theorem live_mode_fails_without_table:
  "fst (compute_live_owned (ex_env stable_argsort) (ex_world None 2000) ex_owned CACHE_TTL_HOURS)
     = Inr [\<lparr>h_set_code = ascii ''znr'', h_collector_number = ascii ''12'',
              h_finish = ascii ''nonfoil'', h_qty = 1, h_scryfall_id = ascii ''a1'',
              h_name = Some (ascii ''Opt''), h_rarity = Some (ascii ''unknown''),
              h_type_line = Some [], h_usd = Some 1.5, position_value_usd = Some 1.5\<rparr>] \<and>
   fst (get_dashboard_data (ex_env stable_argsort) None (ex_world None 2000) ex_owned 7 5 True)
     = Inl DatabaseError \<and>
   fst (get_dashboard_data (ex_env stable_argsort) None (ex_world None 2000) ex_owned 7 5 False)
     = Inl NoSnapshotsForSnapshotMode"
  using live_mode_without_table[OF ex_live] ex_live snapshot_mode_without_snapshots(1)
  by simp

end
